theory Spec2Isabelle
  imports Complex_Main
begin

section \<open>Numbers\<close>

text \<open>
  A JavaScript number is a real number, one of the two infinities, or NaN. Rounding and
  overflow are not modelled, and zero has no sign (a quotient by zero takes the sign of the
  dividend). The inputs of the program (durations, clock readings, sizes) are finite.
\<close>

datatype jsnum = Num real | PosInfinity | NegInfinity | NaN

fun js_neg :: "jsnum \<Rightarrow> jsnum" where
  "js_neg (Num x) = Num (- x)"
| "js_neg PosInfinity = NegInfinity"
| "js_neg NegInfinity = PosInfinity"
| "js_neg NaN = NaN"

fun js_add :: "jsnum \<Rightarrow> jsnum \<Rightarrow> jsnum" where
  "js_add NaN y = NaN"
| "js_add x NaN = NaN"
| "js_add (Num x) (Num y) = Num (x + y)"
| "js_add PosInfinity NegInfinity = NaN"
| "js_add NegInfinity PosInfinity = NaN"
| "js_add PosInfinity y = PosInfinity"
| "js_add NegInfinity y = NegInfinity"
| "js_add x PosInfinity = PosInfinity"
| "js_add x NegInfinity = NegInfinity"

definition js_sub :: "jsnum \<Rightarrow> jsnum \<Rightarrow> jsnum" where
  "js_sub x y = js_add x (js_neg y)"

text \<open>The sign of an infinite product or quotient: positive, or negative.\<close>

definition signed_infinity :: "bool \<Rightarrow> jsnum" where
  "signed_infinity positive = (if positive then PosInfinity else NegInfinity)"

fun js_mul :: "jsnum \<Rightarrow> jsnum \<Rightarrow> jsnum" where
  "js_mul NaN y = NaN"
| "js_mul x NaN = NaN"
| "js_mul (Num x) (Num y) = Num (x * y)"
| "js_mul PosInfinity PosInfinity = PosInfinity"
| "js_mul PosInfinity NegInfinity = NegInfinity"
| "js_mul NegInfinity PosInfinity = NegInfinity"
| "js_mul NegInfinity NegInfinity = PosInfinity"
| "js_mul (Num x) PosInfinity = (if x = 0 then NaN else signed_infinity (0 < x))"
| "js_mul (Num x) NegInfinity = (if x = 0 then NaN else signed_infinity (x < 0))"
| "js_mul PosInfinity (Num y) = (if y = 0 then NaN else signed_infinity (0 < y))"
| "js_mul NegInfinity (Num y) = (if y = 0 then NaN else signed_infinity (y < 0))"

fun js_div :: "jsnum \<Rightarrow> jsnum \<Rightarrow> jsnum" where
  "js_div NaN y = NaN"
| "js_div x NaN = NaN"
| "js_div (Num x) (Num y) =
     (if y = 0 then (if x = 0 then NaN else signed_infinity (0 < x)) else Num (x / y))"
| "js_div (Num x) PosInfinity = Num 0"
| "js_div (Num x) NegInfinity = Num 0"
| "js_div PosInfinity (Num y) = signed_infinity (0 \<le> y)"
| "js_div NegInfinity (Num y) = signed_infinity (y < 0)"
| "js_div PosInfinity y = NaN"
| "js_div NegInfinity y = NaN"

text \<open>\<^verbatim>\<open>x < y\<close> and \<^verbatim>\<open>x === y\<close> on numbers: false when either side is NaN.\<close>

fun js_lt :: "jsnum \<Rightarrow> jsnum \<Rightarrow> bool" where
  "js_lt NaN y = False"
| "js_lt x NaN = False"
| "js_lt (Num x) (Num y) = (x < y)"
| "js_lt PosInfinity y = False"
| "js_lt x PosInfinity = True"
| "js_lt NegInfinity y = (y \<noteq> NegInfinity)"
| "js_lt x NegInfinity = False"

definition strict_eq :: "jsnum \<Rightarrow> jsnum \<Rightarrow> bool" where
  "strict_eq x y = (x \<noteq> NaN \<and> y \<noteq> NaN \<and> x = y)"

text \<open>\<^verbatim>\<open>Math.max\<close> and \<^verbatim>\<open>Math.min\<close> of two numbers: NaN when either is NaN.\<close>

definition Math_max :: "jsnum \<Rightarrow> jsnum \<Rightarrow> jsnum" where
  "Math_max x y = (if x = NaN \<or> y = NaN then NaN else if js_lt x y then y else x)"

definition Math_min :: "jsnum \<Rightarrow> jsnum \<Rightarrow> jsnum" where
  "Math_min x y = (if x = NaN \<or> y = NaN then NaN else if js_lt y x then y else x)"

fun Math_cos :: "jsnum \<Rightarrow> jsnum" where
  "Math_cos (Num x) = Num (cos x)"
| "Math_cos x = NaN"

text \<open>\<^verbatim>\<open>clamp( num, min, max )\<close>: \<^verbatim>\<open>Math.min( Math.max( num, min ), max )\<close>.\<close>

definition clamp :: "jsnum \<Rightarrow> jsnum \<Rightarrow> jsnum \<Rightarrow> jsnum" where
  "clamp num mn mx = Math_min (Math_max num mn) mx"

text \<open>\<^verbatim>\<open>easeInOutSine( x )\<close>: \<^verbatim>\<open>- ( Math.cos( Math.PI * x ) - 1 ) / 2\<close>.\<close>

definition easeInOutSine :: "jsnum \<Rightarrow> jsnum" where
  "easeInOutSine x = js_div (js_neg (js_sub (Math_cos (js_mul (Num pi) x)) (Num 1))) (Num 2)"

section \<open>The fragment shader\<close>

type_synonym vec2 = "real \<times> real"

text \<open>
  The shader computes with GLSL floats, which are modelled by the real numbers. The
  fragment stage does not divide.
\<close>

text \<open>A colour \<^verbatim>\<open>vec4\<close>: red, green, blue, alpha.\<close>

record vec4 =
  red :: real
  green :: real
  blue :: real
  alpha :: real

text \<open>
  A \<^verbatim>\<open>mat2\<close> is stored by columns: \<^verbatim>\<open>mat2( c, -s, s, c )\<close> has first column
  \<open>(c, -s)\<close> and second column \<open>(s, c)\<close>.
\<close>

record mat2 =
  col0 :: vec2
  col1 :: vec2

definition mat2_vec :: "mat2 \<Rightarrow> vec2 \<Rightarrow> vec2" where
  "mat2_vec m v =
     (fst (col0 m) * fst v + fst (col1 m) * snd v,
      snd (col0 m) * fst v + snd (col1 m) * snd v)"

definition defaultAngle :: real where
  "defaultAngle = 3.14159265 / 4"

definition rotationMatrix :: "real \<Rightarrow> mat2" where
  "rotationMatrix angle =
     (let s = sin angle; c = cos angle
      in \<lparr>col0 = (c, - s), col1 = (s, c)\<rparr>)"

definition vec2_add :: "vec2 \<Rightarrow> vec2 \<Rightarrow> vec2" where
  "vec2_add u v = (fst u + fst v, snd u + snd v)"

definition vec2_scale :: "vec2 \<Rightarrow> real \<Rightarrow> vec2" where
  "vec2_scale v k = (fst v * k, snd v * k)"

text \<open>GLSL \<^verbatim>\<open>mix( x, y, a )\<close> is \<open>x * (1 - a) + y * a\<close>, componentwise.\<close>

definition mix :: "vec4 \<Rightarrow> vec4 \<Rightarrow> real \<Rightarrow> vec4" where
  "mix x y t =
     \<lparr>red = red x * (1 - t) + red y * t,
      green = green x * (1 - t) + green y * t,
      blue = blue x * (1 - t) + blue y * t,
      alpha = alpha x * (1 - t) + alpha y * t\<rparr>"

text \<open>The uniforms and samplers of the fragment stage; a sampler maps a coordinate to a colour.\<close>

record frag_env =
  intensity :: real
  direction :: real
  u_progress :: real
  disableFromImage :: real
  disableToImage :: real
  textureFrom_s :: "vec2 \<Rightarrow> vec4"
  textureTo_s :: "vec2 \<Rightarrow> vec4"
  textureDisplacement_s :: "vec2 \<Rightarrow> vec4"

definition displacement :: "frag_env \<Rightarrow> vec2 \<Rightarrow> vec2" where
  "displacement e vUv =
     mat2_vec (rotationMatrix (defaultAngle + direction e))
       (red (textureDisplacement_s e vUv), green (textureDisplacement_s e vUv))"

definition distortedPosition1 :: "frag_env \<Rightarrow> vec2 \<Rightarrow> vec2" where
  "distortedPosition1 e vUv =
     vec2_add vUv (vec2_scale (vec2_scale (displacement e vUv) (intensity e)) (u_progress e))"

definition distortedPosition2 :: "frag_env \<Rightarrow> vec2 \<Rightarrow> vec2" where
  "distortedPosition2 e vUv =
     vec2_add vUv (vec2_scale (vec2_scale (displacement e vUv) (intensity e)) (1 - u_progress e))"

definition outside_unit :: "vec2 \<Rightarrow> bool" where
  "outside_unit p = (fst p < 0 \<or> fst p > 1 \<or> snd p < 0 \<or> snd p > 1)"

definition frag_main :: "frag_env \<Rightarrow> vec2 \<Rightarrow> vec4" where
  "frag_main e vUv =
     (let fromColor = textureFrom_s e (distortedPosition1 e vUv);
          toColor = textureTo_s e (distortedPosition2 e vUv)
      in if disableFromImage e = 1 then
           (if outside_unit (distortedPosition2 e vUv)
            then \<lparr>red = 0, green = 0, blue = 0, alpha = 0\<rparr>
            else \<lparr>red = red toColor, green = green toColor, blue = blue toColor,
                  alpha = alpha toColor * u_progress e\<rparr>)
         else if disableToImage e = 1 then
           (if outside_unit (distortedPosition1 e vUv)
            then \<lparr>red = 0, green = 0, blue = 0, alpha = 0\<rparr>
            else \<lparr>red = red fromColor, green = green fromColor, blue = blue fromColor,
                  alpha = alpha fromColor * (1 - u_progress e)\<rparr>)
         else mix fromColor toColor (u_progress e))"

section \<open>The WebGL context\<close>

text \<open>
  The calls the program issues on its rendering context are recorded in order, with the
  arguments that matter here. Texture objects are named by the number \<^verbatim>\<open>createTexture\<close>
  returned for them.
\<close>

text \<open>
  A texture source (\<^verbatim>\<open>TextureSource\<close>) as the program sees it at one moment: an image
  element, named by a number, with its natural width and height (both 0 until it is
  decoded), or a canvas or a video element with its width and height.
\<close>

datatype source =
  HTMLImageElement nat nat nat
  | HTMLCanvasElement nat nat
  | HTMLVideoElement nat nat

text \<open>What a texture object holds: raw RGBA bytes of a given size, or an uploaded source.\<close>

datatype texdata =
  Rgba8 nat nat "nat list"
  | Uploaded source

datatype min_filter = LINEAR_MIPMAP_NEAREST | LINEAR

datatype uniform =
  U_intensity | U_direction | U_progress | U_uvScale | U_textureFrom | U_textureTo
  | U_textureDisplacement | U_disableFromImage | U_disableToImage

datatype buffer = VertexBuffer | UvBuffer

datatype shader = VertexShader | FragmentShader

datatype gl_call =
  CreateTexture nat
  | BindTexture "nat option"
  | TexImage2D texdata
  | PixelStorei_UNPACK_FLIP_Y_WEBGL bool
  | TexParameteri_MIN_FILTER min_filter
  | TexParameteri_MAG_FILTER_LINEAR
  | TexParameteri_WRAP_S_CLAMP_TO_EDGE
  | TexParameteri_WRAP_T_CLAMP_TO_EDGE
  | GenerateMipmap
  | ActiveTexture nat
  | Uniform1i uniform int
  | Uniform1f uniform jsnum
  | Uniform2f uniform jsnum jsnum
  | Viewport nat nat
  | ClearColor real real real real
  | Clear
  | DrawArrays nat nat
  | Flush
  | BindBuffer "buffer option"
  | DeleteTexture nat
  | DeleteBuffer buffer
  | DeleteShader shader
  | DeleteProgram

section \<open>Texture\<close>

text \<open>\<^verbatim>\<open>defaultImage\<close>: the module's canvas of width 2 and height 2.\<close>

definition defaultImage :: source where
  "defaultImage = HTMLCanvasElement 2 2"

text \<open>
  A \<^verbatim>\<open>Texture\<close>: its \<^verbatim>\<open>image\<close> field, the number of its texture object, what that
  object holds (nothing right after \<^verbatim>\<open>createTexture\<close>), the \<^verbatim>\<open>load\<close> listeners it has
  registered and not removed (each listener is listed by the image element it sits on), and
  the number of \<^verbatim>\<open>updated\<close> events it has dispatched.
\<close>

record texture =
  image_src :: "source option"
  texture_id :: nat
  texels :: "texdata option"
  loadListeners :: "nat list"
  updatedEvents :: nat

text \<open>The texture together with the context it shares.\<close>

type_synonym tex_state = "texture \<times> gl_call list"

text \<open>\<^verbatim>\<open>isPowerOfTwo( value )\<close>: \<^verbatim>\<open>( value & ( value - 1 ) ) === 0 && value !== 0\<close>.\<close>

definition isPowerOfTwo :: "nat \<Rightarrow> bool" where
  "isPowerOfTwo v = (and (int v) (int v - 1) = 0 \<and> v \<noteq> 0)"

definition isLoaded :: "texture \<Rightarrow> bool" where
  "isLoaded t =
     (case image_src t of
        None \<Rightarrow> False
      | Some (HTMLCanvasElement w h) \<Rightarrow> True
      | Some (HTMLVideoElement w h) \<Rightarrow> True
      | Some (HTMLImageElement e nw nh) \<Rightarrow> nw \<noteq> 0)"

fun source_width :: "source \<Rightarrow> nat" where
  "source_width (HTMLImageElement e nw nh) = nw"
| "source_width (HTMLCanvasElement w h) = w"
| "source_width (HTMLVideoElement w h) = w"

fun source_height :: "source \<Rightarrow> nat" where
  "source_height (HTMLImageElement e nw nh) = nh"
| "source_height (HTMLCanvasElement w h) = h"
| "source_height (HTMLVideoElement w h) = h"

text \<open>
  The second half of \<^verbatim>\<open>setImage\<close>: the upload of the chosen \<^verbatim>\<open>_image\<close>, and the
  \<^verbatim>\<open>updated\<close> event after it. The early return of \<^verbatim>\<open>setImage\<close> for a missing context is
  not a branch here: the constructor has called the context before \<^verbatim>\<open>setImage\<close> can run.
\<close>

definition upload :: "source \<Rightarrow> tex_state \<Rightarrow> tex_state" where
  "upload img st =
     (let t = fst st;
          isPowerOfTwoSize = (isPowerOfTwo (source_width img) \<and> isPowerOfTwo (source_height img))
      in (t\<lparr>texels := Some (Uploaded img), updatedEvents := Suc (updatedEvents t)\<rparr>,
          snd st @
          [BindTexture (Some (texture_id t)),
           PixelStorei_UNPACK_FLIP_Y_WEBGL True,
           TexParameteri_MIN_FILTER (if isPowerOfTwoSize then LINEAR_MIPMAP_NEAREST else LINEAR),
           TexParameteri_MAG_FILTER_LINEAR,
           TexParameteri_WRAP_S_CLAMP_TO_EDGE,
           TexParameteri_WRAP_T_CLAMP_TO_EDGE,
           TexImage2D (Uploaded img)] @
          (if isPowerOfTwoSize then [GenerateMipmap] else []) @
          [BindTexture None]))"

text \<open>
  \<^verbatim>\<open>addEventListener( 'load', onLoad )\<close> on the current image: the new listener sits on
  that element. Only an image element is ever not loaded.
\<close>

fun addEventListener :: "source \<Rightarrow> nat list \<Rightarrow> nat list" where
  "addEventListener (HTMLImageElement e nw nh) ls = ls @ [e]"
| "addEventListener (HTMLCanvasElement w h) ls = ls"
| "addEventListener (HTMLVideoElement w h) ls = ls"

text \<open>
  \<^verbatim>\<open>setImage\<close> and \<^verbatim>\<open>onLoad\<close> call each other: \<^verbatim>\<open>setImage\<close> calls \<^verbatim>\<open>onLoad\<close> for a
  source that is not loaded, and \<^verbatim>\<open>onLoad\<close> calls \<^verbatim>\<open>setImage\<close> for one that is.
\<close>

function setImage :: "source option \<Rightarrow> tex_state \<Rightarrow> tex_state"
  and onLoad :: "tex_state \<Rightarrow> tex_state" where
  "setImage img st =
     (let t = (fst st)\<lparr>image_src := img\<rparr>
      in case img of
           None \<Rightarrow> upload defaultImage (t, snd st)
         | Some i \<Rightarrow>
             if isLoaded t then upload i (t, snd st)
             else upload defaultImage (onLoad (t, snd st)))"
| "onLoad st =
     (case image_src (fst st) of
        None \<Rightarrow> st
      | Some i \<Rightarrow>
          if isLoaded (fst st) then setImage (Some i) st
          else ((fst st)\<lparr>loadListeners := addEventListener i (loadListeners (fst st))\<rparr>,
                snd st))"
  by pat_completeness auto
termination
  by (relation "measure (\<lambda>x. case x of
        Inl (img, st) \<Rightarrow> (if isLoaded ((fst st)\<lparr>image_src := img\<rparr>) then 0 else 2)
      | Inr st \<Rightarrow> 1)") (auto simp: isLoaded_def)

text \<open>
  The listener that \<^verbatim>\<open>onLoad\<close> has registered on the image element \<open>e\<close>, run when the
  \<^verbatim>\<open>load\<close> event of \<open>e\<close> fires. Its \<^verbatim>\<open>removeEventListener\<close> addresses the texture's
  current image, so the listener is removed only when that is still the element \<open>e\<close>.
\<close>

fun removeEventListener :: "nat \<Rightarrow> source \<Rightarrow> nat list \<Rightarrow> nat list" where
  "removeEventListener e (HTMLImageElement e' nw nh) ls = (if e' = e then remove1 e ls else ls)"
| "removeEventListener e (HTMLCanvasElement w h) ls = ls"
| "removeEventListener e (HTMLVideoElement w h) ls = ls"

definition onLoad_listener :: "nat \<Rightarrow> tex_state \<Rightarrow> tex_state" where
  "onLoad_listener e st =
     (case image_src (fst st) of
        None \<Rightarrow> st
      | Some i \<Rightarrow>
          setImage (Some i)
            ((fst st)\<lparr>loadListeners := removeEventListener e i (loadListeners (fst st))\<rparr>,
             snd st))"

text \<open>
  The \<^verbatim>\<open>load\<close> event of the image element \<open>e\<close>: the element now has its natural size
  \<open>nw\<close>, \<open>nh\<close> (seen by the texture when \<open>e\<close> is its current image), and the listeners that
  sit on \<open>e\<close> when the event fires run.
\<close>

fun decoded :: "nat \<Rightarrow> nat \<Rightarrow> nat \<Rightarrow> source option \<Rightarrow> source option" where
  "decoded e nw nh (Some (HTMLImageElement e' w h)) =
     (if e' = e then Some (HTMLImageElement e nw nh) else Some (HTMLImageElement e' w h))"
| "decoded e nw nh other = other"

fun run_listeners :: "nat \<Rightarrow> nat \<Rightarrow> tex_state \<Rightarrow> tex_state" where
  "run_listeners 0 e st = st"
| "run_listeners (Suc n) e st = run_listeners n e (onLoad_listener e st)"

definition image_load :: "nat \<Rightarrow> nat \<Rightarrow> nat \<Rightarrow> tex_state \<Rightarrow> tex_state" where
  "image_load e nw nh st =
     run_listeners (count_list (loadListeners (fst st)) e) e
       ((fst st)\<lparr>image_src := decoded e nw nh (image_src (fst st))\<rparr>, snd st)"

text \<open>The constructor of \<^verbatim>\<open>Texture\<close>; \<open>tid\<close> is the object \<^verbatim>\<open>createTexture\<close> returns.\<close>

definition opaque_black :: texdata where
  "opaque_black = Rgba8 1 1 [0, 0, 0, 255]"

definition Texture_new :: "nat \<Rightarrow> source option \<Rightarrow> gl_call list \<Rightarrow> tex_state" where
  "Texture_new tid img gl0 =
     (let t0 = \<lparr>image_src = img, texture_id = tid, texels = None,
                loadListeners = [], updatedEvents = 0\<rparr>;
          st = (t0\<lparr>texels := Some opaque_black\<rparr>,
                gl0 @ [CreateTexture tid, BindTexture (Some tid), TexImage2D opaque_black])
      in if img \<noteq> None then onLoad st else setImage None st)"

section \<open>ImageTransition\<close>

text \<open>
  A callback handed to \<^verbatim>\<open>requestAnimationFrame\<close>: the \<^verbatim>\<open>tick\<close> closure of \<^verbatim>\<open>enter\<close> or of
  \<^verbatim>\<open>leave\<close>, with the \<^verbatim>\<open>startTime\<close> and \<^verbatim>\<open>startElapsedTime\<close> it has captured, or the
  closure of \<^verbatim>\<open>_onUpdate\<close>.
\<close>

datatype callback =
  EnterTick real jsnum
  | LeaveTick real jsnum
  | UpdateRender

datatype event = TransitionEnd

datatype slot = From | To | Displacement

text \<open>
  The fields of an \<^verbatim>\<open>ImageTransition\<close>, the size of its canvas and whether the canvas has a
  parent node, the calls issued on the context so far, the queue of animation frame
  callbacks, and the events dispatched so far.
\<close>

record controller =
  duration :: real
  progress :: jsnum
  canvas_width :: nat
  canvas_height :: nat
  canvas_has_parent :: bool
  textureFrom :: texture
  textureTo :: texture
  textureDisplacement :: texture
  isEntering :: bool
  isLeaving :: bool
  hasUpdated :: bool
  destroyed :: bool
  program :: bool
  gl :: "gl_call list"
  animationFrames :: "callback list"
  dispatched :: "event list"

definition requestAnimationFrame :: "callback \<Rightarrow> controller \<Rightarrow> controller" where
  "requestAnimationFrame cb s = s\<lparr>animationFrames := animationFrames s @ [cb]\<rparr>"

definition dispatchEvent :: "event \<Rightarrow> controller \<Rightarrow> controller" where
  "dispatchEvent ev s = s\<lparr>dispatched := dispatched s @ [ev]\<rparr>"

text \<open>The calls of one \<^verbatim>\<open>render()\<close> at progress \<open>p\<close>.\<close>

definition draw_calls :: "jsnum \<Rightarrow> gl_call list" where
  "draw_calls p =
     [ClearColor 0 0 0 0,
      Uniform1f U_progress (easeInOutSine p),
      Clear,
      DrawArrays 0 6,
      Flush]"

definition render :: "controller \<Rightarrow> controller" where
  "render s =
     (if destroyed s then s
      else
        let s1 = s\<lparr>gl := gl s @ draw_calls (progress s)\<rparr>
        in if strict_eq (progress s1) (Num 1) then s1\<lparr>hasUpdated := False\<rparr> else s1)"

definition onUpdate :: "controller \<Rightarrow> controller" where
  "onUpdate s =
     (if isEntering s \<or> isLeaving s then s
      else if hasUpdated s then s
      else requestAnimationFrame UpdateRender (s\<lparr>hasUpdated := True\<rparr>))"

text \<open>
  The media aspect of \<^verbatim>\<open>_updateAspect\<close>: natural width by natural height for an image
  element, width by height for a canvas, 1 for anything else (a video, or no source).
\<close>

definition mediaAspect :: "source option \<Rightarrow> jsnum" where
  "mediaAspect img =
     (case img of
        Some (HTMLImageElement e nw nh) \<Rightarrow> js_div (Num (real nw)) (Num (real nh))
      | Some (HTMLCanvasElement w h) \<Rightarrow> js_div (Num (real w)) (Num (real h))
      | Some (HTMLVideoElement w h) \<Rightarrow> Num 1
      | None \<Rightarrow> Num 1)"

definition updateAspect :: "controller \<Rightarrow> controller" where
  "updateAspect s =
     (let canvasAspect = js_div (Num (real (canvas_width s))) (Num (real (canvas_height s)));
          img = (if image_src (textureFrom s) \<noteq> None then image_src (textureFrom s)
                 else image_src (textureTo s));
          aspect = js_div (mediaAspect img) canvasAspect
      in onUpdate
           (if js_lt aspect (Num 1)
            then s\<lparr>gl := gl s @ [Uniform2f U_uvScale (Num 1) aspect]\<rparr>
            else s\<lparr>gl := gl s @ [Uniform2f U_uvScale (js_div (Num 1) aspect) (Num 1)]\<rparr>))"

definition updateTexture :: "controller \<Rightarrow> controller" where
  "updateTexture s =
     updateAspect (s\<lparr>gl := gl s @
       [ActiveTexture 0, BindTexture (Some (texture_id (textureFrom s))),
        Uniform1i U_textureFrom 0,
        ActiveTexture 1, BindTexture (Some (texture_id (textureTo s))),
        Uniform1i U_textureTo 1,
        ActiveTexture 2, BindTexture (Some (texture_id (textureDisplacement s))),
        Uniform1i U_textureDisplacement 2,
        Uniform1f U_disableFromImage
          (if image_src (textureFrom s) \<noteq> None then Num 0 else Num 1),
        Uniform1f U_disableToImage
          (if image_src (textureTo s) \<noteq> None then Num 0 else Num 1)]\<rparr>)"

definition setSize :: "nat \<Rightarrow> nat \<Rightarrow> controller \<Rightarrow> controller" where
  "setSize w h s =
     (if canvas_width s = w \<and> canvas_height s = h then s
      else updateAspect (s\<lparr>canvas_width := w, canvas_height := h, gl := gl s @ [Viewport w h]\<rparr>))"

text \<open>
  The two \<^verbatim>\<open>tick\<close> closures. \<open>now\<close> is what \<^verbatim>\<open>performance.now()\<close> returns inside the
  tick.
\<close>

definition enter_tick :: "real \<Rightarrow> jsnum \<Rightarrow> real \<Rightarrow> controller \<Rightarrow> controller" where
  "enter_tick startTime startElapsedTime now s =
     (if destroyed s then s
      else if \<not> isEntering s then s
      else
        let elapsedTime = js_add (Num (now - startTime)) startElapsedTime;
            s1 = render (s\<lparr>progress := clamp (js_div elapsedTime (Num (duration s))) (Num 0) (Num 1)\<rparr>);
            s2 = (if strict_eq (progress s1) (Num 1)
                  then dispatchEvent TransitionEnd (s1\<lparr>isEntering := False\<rparr>)
                  else s1)
        in requestAnimationFrame (EnterTick startTime startElapsedTime) s2)"

definition leave_tick :: "real \<Rightarrow> jsnum \<Rightarrow> real \<Rightarrow> controller \<Rightarrow> controller" where
  "leave_tick startTime startElapsedTime now s =
     (if destroyed s then s
      else if \<not> isLeaving s then s
      else
        let elapsedTime = js_add (Num (now - startTime)) startElapsedTime;
            s1 = render (s\<lparr>progress :=
                   clamp (js_sub (Num 1) (js_div elapsedTime (Num (duration s)))) (Num 0) (Num 1)\<rparr>);
            s2 = (if strict_eq (progress s1) (Num 0)
                  then dispatchEvent TransitionEnd (s1\<lparr>isLeaving := False\<rparr>)
                  else s1)
        in requestAnimationFrame (LeaveTick startTime startElapsedTime) s2)"

text \<open>
  \<^verbatim>\<open>enter()\<close> and \<^verbatim>\<open>leave()\<close>. \<open>now0\<close> is the reading of \<^verbatim>\<open>performance.now()\<close> kept as
  \<^verbatim>\<open>startTime\<close>, \<open>now1\<close> the reading inside the first tick, which runs within the call.
\<close>

definition enter :: "real \<Rightarrow> real \<Rightarrow> controller \<Rightarrow> controller" where
  "enter now0 now1 s =
     (if isEntering s then s
      else if strict_eq (progress s) (Num 1) then s
      else enter_tick now0 (js_mul (Num (duration s)) (progress s)) now1
             (s\<lparr>isEntering := True, isLeaving := False\<rparr>))"

definition leave :: "real \<Rightarrow> real \<Rightarrow> controller \<Rightarrow> controller" where
  "leave now0 now1 s =
     (if isLeaving s then s
      else if strict_eq (progress s) (Num 0) then s
      else leave_tick now0 (js_mul (Num (duration s)) (js_sub (Num 1) (progress s))) now1
             (s\<lparr>isLeaving := True, isEntering := False\<rparr>))"

definition stop :: "controller \<Rightarrow> controller" where
  "stop s =
     (if \<not> isEntering s \<and> \<not> isLeaving s then s
      else dispatchEvent TransitionEnd (s\<lparr>isEntering := False, isLeaving := False\<rparr>))"

definition reset :: "controller \<Rightarrow> controller" where
  "reset s = render ((stop s)\<lparr>progress := Num 0\<rparr>)"

text \<open>
  A texture of the controller shares the controller's context, and the controller listens
  to its \<^verbatim>\<open>updated\<close> events with \<^verbatim>\<open>_updateTexture\<close>. \<open>on_texture sl f\<close> runs the texture
  operation \<open>f\<close> on the texture in slot \<open>sl\<close> and then the listener, once for each event the
  operation has dispatched (the operations used here dispatch as their last action).
\<close>

fun get_texture :: "slot \<Rightarrow> controller \<Rightarrow> texture" where
  "get_texture From s = textureFrom s"
| "get_texture To s = textureTo s"
| "get_texture Displacement s = textureDisplacement s"

fun put_texture :: "slot \<Rightarrow> texture \<Rightarrow> controller \<Rightarrow> controller" where
  "put_texture From t s = s\<lparr>textureFrom := t\<rparr>"
| "put_texture To t s = s\<lparr>textureTo := t\<rparr>"
| "put_texture Displacement t s = s\<lparr>textureDisplacement := t\<rparr>"

definition on_texture :: "slot \<Rightarrow> (tex_state \<Rightarrow> tex_state) \<Rightarrow> controller \<Rightarrow> controller" where
  "on_texture sl f s =
     (let st = f (get_texture sl s, gl s);
          n = updatedEvents (fst st) - updatedEvents (get_texture sl s)
      in (updateTexture ^^ n) (put_texture sl (fst st) (s\<lparr>gl := snd st\<rparr>)))"

definition setFromImage :: "source \<Rightarrow> controller \<Rightarrow> controller" where
  "setFromImage sourceFrom s = on_texture From (setImage (Some sourceFrom)) s"

definition setToImage :: "source \<Rightarrow> controller \<Rightarrow> controller" where
  "setToImage sourceTo s = on_texture To (setImage (Some sourceTo)) s"

text \<open>
  The \<^verbatim>\<open>load\<close> event of the image element \<open>e\<close>, as far as the texture in slot \<open>sl\<close> is
  concerned: the element has its natural size, in every texture that holds it, and the
  listeners of that texture that sit on \<open>e\<close> run. When several textures have listeners on one
  element, the event is one such step for each of them.
\<close>

definition element_decoded :: "nat \<Rightarrow> nat \<Rightarrow> nat \<Rightarrow> controller \<Rightarrow> controller" where
  "element_decoded e nw nh s =
     s\<lparr>textureFrom := (textureFrom s)\<lparr>image_src := decoded e nw nh (image_src (textureFrom s))\<rparr>,
       textureTo := (textureTo s)\<lparr>image_src := decoded e nw nh (image_src (textureTo s))\<rparr>,
       textureDisplacement := (textureDisplacement s)
         \<lparr>image_src := decoded e nw nh (image_src (textureDisplacement s))\<rparr>\<rparr>"

definition texture_image_load :: "slot \<Rightarrow> nat \<Rightarrow> nat \<Rightarrow> nat \<Rightarrow> controller \<Rightarrow> controller" where
  "texture_image_load sl e nw nh s =
     (let s1 = element_decoded e nw nh s
      in (on_texture sl (onLoad_listener e) ^^ count_list (loadListeners (get_texture sl s1)) e)
           s1)"

definition destroy :: "bool \<Rightarrow> controller \<Rightarrow> controller" where
  "destroy removeElement s =
     (let s1 = s\<lparr>destroyed := True, isEntering := False, isLeaving := False\<rparr>;
          s2 = (if removeElement then setSize 1 1 s1 else s1);
          s3 = (if program s2
                then s2\<lparr>gl := gl s2 @
                       [ActiveTexture 0, BindTexture None,
                        ActiveTexture 1, BindTexture None,
                        ActiveTexture 2, BindTexture None,
                        BindBuffer None,
                        DeleteTexture (texture_id (textureFrom s2)),
                        DeleteTexture (texture_id (textureTo s2)),
                        DeleteTexture (texture_id (textureDisplacement s2)),
                        DeleteBuffer VertexBuffer,
                        DeleteBuffer UvBuffer,
                        DeleteShader VertexShader,
                        DeleteShader FragmentShader,
                        DeleteProgram]\<rparr>
                else s2)
      in if removeElement \<and> canvas_has_parent s3 then s3\<lparr>canvas_has_parent := False\<rparr> else s3)"

text \<open>
  The browser runs the callbacks of the animation frame queue in the order they were
  requested; a callback requested meanwhile goes to the end of the queue. \<open>now\<close> is the
  reading of \<^verbatim>\<open>performance.now()\<close> during the callback.
\<close>

definition run_callback :: "real \<Rightarrow> callback \<Rightarrow> controller \<Rightarrow> controller" where
  "run_callback now cb s =
     (case cb of
        EnterTick startTime startElapsedTime \<Rightarrow> enter_tick startTime startElapsedTime now s
      | LeaveTick startTime startElapsedTime \<Rightarrow> leave_tick startTime startElapsedTime now s
      | UpdateRender \<Rightarrow> (render s)\<lparr>hasUpdated := False\<rparr>)"

definition animationFrame :: "real \<Rightarrow> controller \<Rightarrow> controller" where
  "animationFrame now s =
     (case animationFrames s of
        [] \<Rightarrow> s
      | cb # rest \<Rightarrow> run_callback now cb (s\<lparr>animationFrames := rest\<rparr>))"

text \<open>
  The constructor. Its parameter object: the size of the canvas and whether it has a parent
  node, the optional \<^verbatim>\<open>intensity\<close>, \<^verbatim>\<open>duration\<close> and \<^verbatim>\<open>direction\<close> with their defaults
  1, 2000 and 0, the optional sources, and the displacement source. The calls that create
  and link the program and fill the two buffers are not recorded.
\<close>

record params =
  p_canvas_width :: nat
  p_canvas_height :: nat
  p_canvas_has_parent :: bool
  p_intensity :: "real option"
  p_duration :: "real option"
  p_direction :: "real option"
  p_sourceFrom :: "source option"
  p_sourceTo :: "source option"
  p_displacementSource :: source

definition ImageTransition_new :: "params \<Rightarrow> controller" where
  "ImageTransition_new p =
     (let gl0 = [Uniform1f U_intensity (Num (case p_intensity p of None \<Rightarrow> 1 | Some i \<Rightarrow> i)),
                 Uniform1f U_direction (Num (case p_direction p of None \<Rightarrow> 0 | Some d \<Rightarrow> d))];
          tf = Texture_new 0 (p_sourceFrom p) gl0;
          tt = Texture_new 1 (p_sourceTo p) (snd tf);
          td = Texture_new 2 (Some (p_displacementSource p)) (snd tt);
          s = \<lparr>duration = (case p_duration p of None \<Rightarrow> 2000 | Some d \<Rightarrow> d),
               progress = Num 0,
               canvas_width = p_canvas_width p,
               canvas_height = p_canvas_height p,
               canvas_has_parent = p_canvas_has_parent p,
               textureFrom = fst tf,
               textureTo = fst tt,
               textureDisplacement = fst td,
               isEntering = False,
               isLeaving = False,
               hasUpdated = True,
               destroyed = False,
               program = True,
               gl = snd td,
               animationFrames = [],
               dispatched = []\<rparr>
      in setSize (canvas_width s) (canvas_height s) (updateTexture s))"

text \<open>The public operations and the events of the environment, as one step function.\<close>

datatype operation =
  Enter real real
  | Leave real real
  | Stop
  | Reset
  | SetSize nat nat
  | SetFromImage source
  | SetToImage source
  | Render
  | Destroy bool
  | AnimationFrame real
  | ImageLoad slot nat nat nat

fun step :: "operation \<Rightarrow> controller \<Rightarrow> controller" where
  "step (Enter now0 now1) s = enter now0 now1 s"
| "step (Leave now0 now1) s = leave now0 now1 s"
| "step Stop s = stop s"
| "step Reset s = reset s"
| "step (SetSize w h) s = setSize w h s"
| "step (SetFromImage src) s = setFromImage src s"
| "step (SetToImage src) s = setToImage src s"
| "step Render s = render s"
| "step (Destroy removeElement) s = destroy removeElement s"
| "step (AnimationFrame now) s = animationFrame now s"
| "step (ImageLoad sl e nw nh) s = texture_image_load sl e nw nh s"

fun run :: "operation list \<Rightarrow> controller \<Rightarrow> controller" where
  "run [] s = s"
| "run (x # xs) s = run xs (step x s)"

section \<open>A texture on its own\<close>

text \<open>What can happen to a \<^verbatim>\<open>Texture\<close> after its construction.\<close>

datatype texture_operation =
  SetImage "source option"
  | OnLoad
  | LoadEvent nat nat nat

fun texture_step :: "texture_operation \<Rightarrow> tex_state \<Rightarrow> tex_state" where
  "texture_step (SetImage img) st = setImage img st"
| "texture_step OnLoad st = onLoad st"
| "texture_step (LoadEvent e nw nh) st = image_load e nw nh st"

fun texture_run :: "texture_operation list \<Rightarrow> tex_state \<Rightarrow> tex_state" where
  "texture_run [] st = st"
| "texture_run (x # xs) st = texture_run xs (texture_step x st)"

text \<open>A source counts as loaded as in \<^verbatim>\<open>isLoaded\<close>.\<close>

fun source_loaded :: "source \<Rightarrow> bool" where
  "source_loaded (HTMLImageElement e nw nh) = (nw \<noteq> 0)"
| "source_loaded (HTMLCanvasElement w h) = True"
| "source_loaded (HTMLVideoElement w h) = True"

text \<open>
  The texture object holds pixel data: the opaque black pixel of the constructor, the
  default canvas, or a loaded source.
\<close>

definition holds_pixels :: "texture \<Rightarrow> bool" where
  "holds_pixels t =
     (case texels t of
        None \<Rightarrow> False
      | Some (Rgba8 w h bytes) \<Rightarrow> w = 1 \<and> h = 1 \<and> bytes = [0, 0, 0, 255]
      | Some (Uploaded i) \<Rightarrow> i = defaultImage \<or> source_loaded i)"

section \<open>Example states\<close>

definition example_params :: params where
  "example_params =
     \<lparr>p_canvas_width = 100, p_canvas_height = 100, p_canvas_has_parent = True,
      p_intensity = None, p_duration = None, p_direction = None,
      p_sourceFrom = Some (HTMLImageElement 7 16 9), p_sourceTo = None,
      p_displacementSource = HTMLCanvasElement 4 4\<rparr>"

definition example_controller :: controller where
  "example_controller = ImageTransition_new example_params"

text \<open>The same construction with a duration of 0.\<close>

definition zero_duration_controller :: controller where
  "zero_duration_controller = ImageTransition_new (example_params\<lparr>p_duration := Some 0\<rparr>)"

text \<open>
  Fragment environments. The ``from'' texture has the coordinate in its red and green
  channels, the ``to'' texture has it in its blue and green channels, and the displacement
  sample is \<open>(1, 0)\<close> everywhere. In \<open>quarter_turn_env\<close> the \<^verbatim>\<open>direction\<close> makes the angle
  passed to \<^verbatim>\<open>rotationMatrix\<close> \<open>pi / 2\<close>, and the progress is 1/4.
\<close>

definition example_env :: frag_env where
  "example_env =
     \<lparr>intensity = 1, direction = 0, u_progress = 1 / 2,
      disableFromImage = 0, disableToImage = 0,
      textureFrom_s = (\<lambda>p. \<lparr>red = fst p, green = snd p, blue = 0, alpha = 1\<rparr>),
      textureTo_s = (\<lambda>p. \<lparr>red = 0, green = snd p, blue = fst p, alpha = 1\<rparr>),
      textureDisplacement_s = (\<lambda>p. \<lparr>red = 1, green = 0, blue = 0, alpha = 1\<rparr>)\<rparr>"

definition quarter_turn_env :: frag_env where
  "quarter_turn_env = example_env\<lparr>direction := pi / 2 - defaultAngle, u_progress := 1 / 4\<rparr>"

text \<open>
  States of a run of the example: half way through \<^verbatim>\<open>enter()\<close>, after a
  \<^verbatim>\<open>leave()\<close> at that point, at the end of \<^verbatim>\<open>enter()\<close>, and after \<^verbatim>\<open>destroy()\<close>.
\<close>

definition entering_example :: controller where
  "entering_example =
     example_controller
       \<lparr>progress := Num (1 / 2), isEntering := True,
        gl := gl example_controller @ draw_calls (Num 0) @ draw_calls (Num (1 / 2)),
        animationFrames := [EnterTick 0 (Num 0)]\<rparr>"

definition leaving_example :: controller where
  "leaving_example =
     entering_example
       \<lparr>isEntering := False, isLeaving := True,
        gl := gl entering_example @ draw_calls (Num (1 / 2)),
        animationFrames := [EnterTick 0 (Num 0), LeaveTick 1000 (Num 1000)]\<rparr>"

definition finished_example :: controller where
  "finished_example =
     entering_example
       \<lparr>progress := Num 1, isEntering := False, hasUpdated := False,
        gl := gl entering_example @ draw_calls (Num 1),
        animationFrames := [EnterTick 0 (Num 0)],
        dispatched := [TransitionEnd]\<rparr>"

definition destroyed_example :: controller where
  "destroyed_example = destroy False example_controller"

section \<open>Notions used in the statements\<close>

text \<open>The clamp to [0,1] on the real numbers.\<close>

definition clamp01 :: "real \<Rightarrow> real" where
  "clamp01 x = min (max x 0) 1"

text \<open>The two mode flags are not both set, and the progress is NaN or lies between 0 and 1.\<close>

definition invariant :: "controller \<Rightarrow> bool" where
  "invariant s =
     (\<not> (isEntering s \<and> isLeaving s)
      \<and> (progress s = NaN \<or> (\<exists>x. progress s = Num x \<and> 0 \<le> x \<and> x \<le> 1)))"

text \<open>
  A queued callback whose captured offset, if it has one, is a number (not NaN and not an
  infinity), and the invariant of a controller whose duration is not 0: the flags are not
  both set, the progress is a number between 0 and 1, and every queued tick has captured
  such an offset.
\<close>

fun finite_offset :: "callback \<Rightarrow> bool" where
  "finite_offset (EnterTick startTime (Num x)) = True"
| "finite_offset (LeaveTick startTime (Num x)) = True"
| "finite_offset UpdateRender = True"
| "finite_offset cb = False"

definition finite_invariant :: "controller \<Rightarrow> bool" where
  "finite_invariant s =
     (duration s \<noteq> 0
      \<and> \<not> (isEntering s \<and> isLeaving s)
      \<and> (\<exists>x. progress s = Num x \<and> 0 \<le> x \<and> x \<le> 1)
      \<and> list_all finite_offset (animationFrames s))"

text \<open>
  The rotation of the plane by the angle \<open>t\<close>, counterclockwise for positive \<open>t\<close>, written
  after the specification's ``standard 2x2 rotation matrix''.
\<close>

definition standard_rotation :: "real \<Rightarrow> vec2 \<Rightarrow> vec2" where
  "standard_rotation t v = (cos t * fst v - sin t * snd v, sin t * fst v + cos t * snd v)"

text \<open>The square \<open>[0,1] \<times> [0,1]\<close>, and the colour \<^verbatim>\<open>vec4( 0. )\<close>.\<close>

definition unit_square :: "vec2 \<Rightarrow> bool" where
  "unit_square p = (0 \<le> fst p \<and> fst p \<le> 1 \<and> 0 \<le> snd p \<and> snd p \<le> 1)"

definition transparent :: vec4 where
  "transparent = \<lparr>red = 0, green = 0, blue = 0, alpha = 0\<rparr>"

section \<open>Basic facts\<close>

subsection \<open>Numbers\<close>

lemma strict_eq_Num [simp]: "strict_eq x (Num c) = (x = Num c)"
  by (auto simp: strict_eq_def)

lemma js_sub_Num [simp]: "js_sub (Num x) (Num y) = Num (x - y)"
  by (simp add: js_sub_def)

lemma clamp_Num [simp]: "clamp (Num x) (Num 0) (Num 1) = Num (clamp01 x)"
  by (simp add: clamp_def Math_max_def Math_min_def clamp01_def min_def max_def)

lemma clamp_special [simp]:
  "clamp PosInfinity (Num 0) (Num 1) = Num 1"
  "clamp NegInfinity (Num 0) (Num 1) = Num 0"
  "clamp NaN (Num 0) (Num 1) = NaN"
  by (simp_all add: clamp_def Math_max_def Math_min_def)

lemma clamp_range:
  "clamp q (Num 0) (Num 1) = NaN
   \<or> (\<exists>x. clamp q (Num 0) (Num 1) = Num x \<and> 0 \<le> x \<and> x \<le> 1)"
  by (cases q) (simp_all add: clamp01_def)

lemma clamp01_bounds [simp]: "0 \<le> clamp01 x" "clamp01 x \<le> 1"
  by (simp_all add: clamp01_def)



lemma js_div_Num: "y \<noteq> 0 \<Longrightarrow> js_div (Num x) (Num y) = Num (x / y)"
  by simp

lemma easeInOutSine_Num: "easeInOutSine (Num x) = Num (- (cos (pi * x) - 1) / 2)"
  by (simp add: easeInOutSine_def)


lemma easeInOutSine_0: "easeInOutSine (Num 0) = Num 0"
  by (simp add: easeInOutSine_def)


subsection \<open>Fields that the helpers keep\<close>

lemma render_fields [simp]:
  "duration (render s) = duration s"
  "progress (render s) = progress s"
  "isEntering (render s) = isEntering s"
  "isLeaving (render s) = isLeaving s"
  "destroyed (render s) = destroyed s"
  "dispatched (render s) = dispatched s"
  "animationFrames (render s) = animationFrames s"
  by (simp_all add: render_def Let_def)

lemma onUpdate_fields [simp]:
  "duration (onUpdate s) = duration s"
  "progress (onUpdate s) = progress s"
  "isEntering (onUpdate s) = isEntering s"
  "isLeaving (onUpdate s) = isLeaving s"
  "destroyed (onUpdate s) = destroyed s"
  "dispatched (onUpdate s) = dispatched s"
  "gl (onUpdate s) = gl s"
  by (simp_all add: onUpdate_def requestAnimationFrame_def)

lemma updateAspect_fields [simp]:
  "duration (updateAspect s) = duration s"
  "progress (updateAspect s) = progress s"
  "isEntering (updateAspect s) = isEntering s"
  "isLeaving (updateAspect s) = isLeaving s"
  "destroyed (updateAspect s) = destroyed s"
  "dispatched (updateAspect s) = dispatched s"
  by (simp_all add: updateAspect_def Let_def)

lemma updateTexture_fields [simp]:
  "duration (updateTexture s) = duration s"
  "progress (updateTexture s) = progress s"
  "isEntering (updateTexture s) = isEntering s"
  "isLeaving (updateTexture s) = isLeaving s"
  "destroyed (updateTexture s) = destroyed s"
  "dispatched (updateTexture s) = dispatched s"
  by (simp_all add: updateTexture_def)

lemma setSize_fields [simp]:
  "duration (setSize w h s) = duration s"
  "progress (setSize w h s) = progress s"
  "isEntering (setSize w h s) = isEntering s"
  "isLeaving (setSize w h s) = isLeaving s"
  "destroyed (setSize w h s) = destroyed s"
  "dispatched (setSize w h s) = dispatched s"
  by (simp_all add: setSize_def)

lemma put_texture_fields [simp]:
  "duration (put_texture sl t s) = duration s"
  "progress (put_texture sl t s) = progress s"
  "isEntering (put_texture sl t s) = isEntering s"
  "isLeaving (put_texture sl t s) = isLeaving s"
  "destroyed (put_texture sl t s) = destroyed s"
  "dispatched (put_texture sl t s) = dispatched s"
  by (cases sl; simp)+

lemma updateTexture_pow_fields [simp]:
  "duration ((updateTexture ^^ n) s) = duration s"
  "progress ((updateTexture ^^ n) s) = progress s"
  "isEntering ((updateTexture ^^ n) s) = isEntering s"
  "isLeaving ((updateTexture ^^ n) s) = isLeaving s"
  "destroyed ((updateTexture ^^ n) s) = destroyed s"
  "dispatched ((updateTexture ^^ n) s) = dispatched s"
  by (induction n; simp)+

lemma on_texture_fields [simp]:
  "duration (on_texture sl f s) = duration s"
  "progress (on_texture sl f s) = progress s"
  "isEntering (on_texture sl f s) = isEntering s"
  "isLeaving (on_texture sl f s) = isLeaving s"
  "destroyed (on_texture sl f s) = destroyed s"
  "dispatched (on_texture sl f s) = dispatched s"
  by (simp_all add: on_texture_def Let_def)

lemma on_texture_pow_fields [simp]:
  "duration ((on_texture sl f ^^ n) s) = duration s"
  "progress ((on_texture sl f ^^ n) s) = progress s"
  "isEntering ((on_texture sl f ^^ n) s) = isEntering s"
  "isLeaving ((on_texture sl f ^^ n) s) = isLeaving s"
  "destroyed ((on_texture sl f ^^ n) s) = destroyed s"
  "dispatched ((on_texture sl f ^^ n) s) = dispatched s"
  by (induction n; simp)+

lemma texture_image_load_fields [simp]:
  "duration (texture_image_load sl e nw nh s) = duration s"
  "progress (texture_image_load sl e nw nh s) = progress s"
  "isEntering (texture_image_load sl e nw nh s) = isEntering s"
  "isLeaving (texture_image_load sl e nw nh s) = isLeaving s"
  "destroyed (texture_image_load sl e nw nh s) = destroyed s"
  "dispatched (texture_image_load sl e nw nh s) = dispatched s"
  by (simp_all add: texture_image_load_def Let_def element_decoded_def)

lemma destroy_fields [simp]:
  "duration (destroy re s) = duration s"
  "progress (destroy re s) = progress s"
  "isEntering (destroy re s) = False"
  "isLeaving (destroy re s) = False"
  "destroyed (destroy re s) = True"
  "dispatched (destroy re s) = dispatched s"
  by (simp_all add: destroy_def Let_def)

lemma stop_fields [simp]:
  "duration (stop s) = duration s"
  "progress (stop s) = progress s"
  "isEntering (stop s) = False"
  "isLeaving (stop s) = False"
  "destroyed (stop s) = destroyed s"
  "gl (stop s) = gl s"
  "animationFrames (stop s) = animationFrames s"
  by (auto simp: stop_def dispatchEvent_def)

lemma reset_fields [simp]:
  "duration (reset s) = duration s"
  "progress (reset s) = Num 0"
  "isEntering (reset s) = False"
  "isLeaving (reset s) = False"
  "destroyed (reset s) = destroyed s"
  by (simp_all add: reset_def)

lemma new_fields [simp]:
  "duration (ImageTransition_new p) = (case p_duration p of None \<Rightarrow> 2000 | Some d \<Rightarrow> d)"
  "progress (ImageTransition_new p) = Num 0"
  "isEntering (ImageTransition_new p) = False"
  "isLeaving (ImageTransition_new p) = False"
  "destroyed (ImageTransition_new p) = False"
  "dispatched (ImageTransition_new p) = []"
  by (simp_all add: ImageTransition_new_def Let_def)

subsection \<open>render and the ticks\<close>

lemma render_gl: "\<not> destroyed s \<Longrightarrow> gl (render s) = gl s @ draw_calls (progress s)"
  by (simp add: render_def Let_def)

lemma render_destroyed: "destroyed s \<Longrightarrow> render s = s"
  by (simp add: render_def)

lemma enter_tick_inert: "destroyed s \<or> \<not> isEntering s \<Longrightarrow> enter_tick st se now s = s"
  by (auto simp: enter_tick_def)

lemma leave_tick_inert: "destroyed s \<or> \<not> isLeaving s \<Longrightarrow> leave_tick st se now s = s"
  by (auto simp: leave_tick_def)





lemma example_fields [simp]:
  "duration example_controller = 2000"
  "progress example_controller = Num 0"
  "isEntering example_controller = False"
  "isLeaving example_controller = False"
  "destroyed example_controller = False"
  "dispatched example_controller = []"
  by (simp_all add: example_controller_def example_params_def)

lemma updateAspect_frames:
  "animationFrames (updateAspect s) = animationFrames (onUpdate s)"
  by (simp add: updateAspect_def Let_def onUpdate_def requestAnimationFrame_def)

lemma onUpdate_idle: "hasUpdated s \<Longrightarrow> onUpdate s = s"
  by (simp add: onUpdate_def)

lemma updateAspect_quiet:
  "hasUpdated s \<Longrightarrow>
   hasUpdated (updateAspect s) \<and> animationFrames (updateAspect s) = animationFrames s"
  by (simp add: updateAspect_def Let_def onUpdate_idle)

lemma updateTexture_quiet:
  "hasUpdated s \<Longrightarrow>
   hasUpdated (updateTexture s) \<and> animationFrames (updateTexture s) = animationFrames s"
  by (simp add: updateTexture_def updateAspect_quiet)

lemma setSize_quiet:
  "hasUpdated s \<Longrightarrow>
   hasUpdated (setSize w h s) \<and> animationFrames (setSize w h s) = animationFrames s"
  by (simp add: setSize_def updateAspect_quiet)

lemma new_quiet:
  "hasUpdated (ImageTransition_new p) \<and> animationFrames (ImageTransition_new p) = []"
  by (simp add: ImageTransition_new_def Let_def setSize_quiet updateTexture_quiet)

lemma example_frames [simp]:
  "animationFrames example_controller = []" "hasUpdated example_controller"
  by (simp_all add: example_controller_def new_quiet)

lemmas run_defs = enter_def leave_def enter_tick_def leave_tick_def animationFrame_def
  run_callback_def render_def Let_def dispatchEvent_def requestAnimationFrame_def clamp01_def

lemma entering_example_reached:
  "run [Enter 0 0, AnimationFrame 1000] example_controller = entering_example"
  by (simp add: run_defs entering_example_def)

lemma leaving_example_reached:
  "run [Enter 0 0, AnimationFrame 1000, Leave 1000 1000] example_controller = leaving_example"
  by (simp add: run_defs entering_example_def leaving_example_def)


lemma entering_example_fields [simp]:
  "duration entering_example = 2000"
  "progress entering_example = Num (1 / 2)"
  "isEntering entering_example"
  "\<not> isLeaving entering_example"
  "\<not> destroyed entering_example"
  "dispatched entering_example = []"
  "animationFrames entering_example = [EnterTick 0 (Num 0)]"
  by (simp_all add: entering_example_def)

lemma leaving_example_fields [simp]:
  "duration leaving_example = 2000"
  "progress leaving_example = Num (1 / 2)"
  "\<not> isEntering leaving_example"
  "isLeaving leaving_example"
  "\<not> destroyed leaving_example"
  "dispatched leaving_example = []"
  "animationFrames leaving_example = [EnterTick 0 (Num 0), LeaveTick 1000 (Num 1000)]"
  by (simp_all add: leaving_example_def)

lemma finished_example_fields [simp]:
  "duration finished_example = 2000"
  "progress finished_example = Num 1"
  "\<not> isEntering finished_example"
  "\<not> isLeaving finished_example"
  "\<not> destroyed finished_example"
  "dispatched finished_example = [TransitionEnd]"
  "animationFrames finished_example = [EnterTick 0 (Num 0)]"
  by (simp_all add: finished_example_def)

lemma leftover_tick_fires_again:
  "progress (run [Reset, Enter 2001 2001, AnimationFrame 2016] finished_example) = Num 1
   \<and> dispatched (run [Reset, Enter 2001 2001, AnimationFrame 2016] finished_example)
       = [TransitionEnd, TransitionEnd]"
  by (simp add: run_defs reset_def stop_def)



lemma enter_destroyed:
  "destroyed s \<Longrightarrow>
   enter now0 now1 s =
     (if isEntering s \<or> progress s = Num 1 then s
      else s\<lparr>isEntering := True, isLeaving := False\<rparr>)"
  by (simp add: enter_def enter_tick_def)

lemma leave_destroyed:
  "destroyed s \<Longrightarrow>
   leave now0 now1 s =
     (if isLeaving s \<or> progress s = Num 0 then s
      else s\<lparr>isLeaving := True, isEntering := False\<rparr>)"
  by (simp add: leave_def leave_tick_def)

lemma destroyed_example_fields [simp]:
  "destroyed destroyed_example"
  "\<not> isEntering destroyed_example"
  "\<not> isLeaving destroyed_example"
  "progress destroyed_example = Num 0"
  "dispatched destroyed_example = []"
  by (simp_all add: destroyed_example_def)

declare setImage.simps [simp del] onLoad.simps [simp del]

lemma isLoaded_iff:
  "isLoaded t = (case image_src t of None \<Rightarrow> False | Some i \<Rightarrow> source_loaded i)"
  by (cases "image_src t"; simp add: isLoaded_def split: source.splits)

lemma upload_fields [simp]:
  "texels (fst (upload i st)) = Some (Uploaded i)"
  "image_src (fst (upload i st)) = image_src (fst st)"
  "loadListeners (fst (upload i st)) = loadListeners (fst st)"
  "texture_id (fst (upload i st)) = texture_id (fst st)"
  "updatedEvents (fst (upload i st)) = Suc (updatedEvents (fst st))"
  by (simp_all add: upload_def Let_def)

lemma onLoad_waiting:
  "image_src (fst st) = Some i \<Longrightarrow> \<not> source_loaded i \<Longrightarrow>
   onLoad st = ((fst st)\<lparr>loadListeners := addEventListener i (loadListeners (fst st))\<rparr>, snd st)"
  by (simp add: onLoad.simps isLoaded_iff)

lemma setImage_None:
  "setImage None st = upload defaultImage ((fst st)\<lparr>image_src := None\<rparr>, snd st)"
  by (simp add: setImage.simps)

lemma setImage_loaded:
  "source_loaded i \<Longrightarrow>
   setImage (Some i) st = upload i ((fst st)\<lparr>image_src := Some i\<rparr>, snd st)"
  by (simp add: setImage.simps isLoaded_iff)

lemma setImage_waiting:
  "\<not> source_loaded i \<Longrightarrow>
   setImage (Some i) st =
     upload defaultImage
       ((fst st)\<lparr>image_src := Some i,
                 loadListeners := addEventListener i (loadListeners (fst st))\<rparr>, snd st)"
  by (simp add: setImage.simps isLoaded_iff onLoad_waiting)

lemma setImage_texels:
  "texels (fst (setImage img st)) =
     Some (Uploaded (case img of None \<Rightarrow> defaultImage
                     | Some i \<Rightarrow> if source_loaded i then i else defaultImage))"
proof (cases img)
  case None
  then show ?thesis by (simp add: setImage_None)
next
  case (Some i)
  then show ?thesis by (cases "source_loaded i") (simp_all add: setImage_loaded setImage_waiting)
qed

lemma setImage_image_src: "image_src (fst (setImage img st)) = img"
proof (cases img)
  case None
  then show ?thesis by (simp add: setImage_None)
next
  case (Some i)
  then show ?thesis by (cases "source_loaded i") (simp_all add: setImage_loaded setImage_waiting)
qed

text \<open>\<^verbatim>\<open>setImage\<close> dispatches \<^verbatim>\<open>updated\<close> exactly once.\<close>

lemma setImage_updated:
  "updatedEvents (fst (setImage img st)) = Suc (updatedEvents (fst st))"
proof (cases img)
  case None
  then show ?thesis by (simp add: setImage_None)
next
  case (Some i)
  then show ?thesis by (cases "source_loaded i") (simp_all add: setImage_loaded setImage_waiting)
qed

lemma onLoad_image_src: "image_src (fst (onLoad st)) = image_src (fst st)"
proof (cases "image_src (fst st)")
  case None
  then show ?thesis by (simp add: onLoad.simps)
next
  case (Some i)
  then show ?thesis
    by (cases "source_loaded i")
      (simp_all add: onLoad.simps isLoaded_iff setImage_image_src onLoad_waiting)
qed

lemma Texture_new_image_src: "image_src (fst (Texture_new tid img gl0)) = img"
  by (cases img) (simp_all add: Texture_new_def Let_def onLoad_image_src setImage_image_src)

lemma setImage_holds: "holds_pixels (fst (setImage img st))"
  by (simp add: holds_pixels_def setImage_texels split: option.splits)

lemma onLoad_holds: "holds_pixels (fst st) \<Longrightarrow> holds_pixels (fst (onLoad st))"
proof (cases "image_src (fst st)")
  case None
  assume "holds_pixels (fst st)"
  with None show ?thesis by (simp add: onLoad.simps)
next
  case (Some i)
  assume h: "holds_pixels (fst st)"
  show ?thesis
  proof (cases "source_loaded i")
    case True
    with Some show ?thesis by (simp add: onLoad.simps isLoaded_iff setImage_holds)
  next
    case False
    with Some h show ?thesis by (simp add: onLoad_waiting holds_pixels_def)
  qed
qed

lemma onLoad_listener_holds:
  "holds_pixels (fst st) \<Longrightarrow> holds_pixels (fst (onLoad_listener e st))"
  by (cases "image_src (fst st)") (simp_all add: onLoad_listener_def setImage_holds)

lemma run_listeners_holds:
  "holds_pixels (fst st) \<Longrightarrow> holds_pixels (fst (run_listeners n e st))"
  by (induction n arbitrary: st) (simp_all add: onLoad_listener_holds)

lemma image_load_holds:
  "holds_pixels (fst st) \<Longrightarrow> holds_pixels (fst (image_load e nw nh st))"
proof -
  assume "holds_pixels (fst st)"
  then have "holds_pixels
      (fst ((fst st)\<lparr>image_src := decoded e nw nh (image_src (fst st))\<rparr>, snd st))"
    by (simp add: holds_pixels_def)
  then show ?thesis
    unfolding image_load_def by (rule run_listeners_holds)
qed

lemma texture_step_holds:
  "holds_pixels (fst st) \<Longrightarrow> holds_pixels (fst (texture_step x st))"
  by (cases x) (simp_all add: setImage_holds onLoad_holds image_load_holds)

lemma texture_run_holds:
  "holds_pixels (fst st) \<Longrightarrow> holds_pixels (fst (texture_run xs st))"
  by (induction xs arbitrary: st) (simp_all add: texture_step_holds)

lemma Texture_new_texels:
  "texels (fst (Texture_new tid img gl0)) =
     Some (case img of
             None \<Rightarrow> Uploaded defaultImage
           | Some i \<Rightarrow> if source_loaded i then Uploaded i else opaque_black)"
proof (cases img)
  case None
  then show ?thesis by (simp add: Texture_new_def Let_def setImage_texels)
next
  case (Some i)
  then show ?thesis
    by (cases "source_loaded i")
      (simp_all add: Texture_new_def Let_def onLoad.simps isLoaded_iff setImage_texels)
qed

lemma Texture_new_holds: "holds_pixels (fst (Texture_new tid img gl0))"
  by (simp add: holds_pixels_def Texture_new_texels opaque_black_def split: option.splits)

subsection \<open>The sources of the controller\<close>

lemma updateAspect_textures [simp]:
  "textureFrom (updateAspect s) = textureFrom s"
  "textureTo (updateAspect s) = textureTo s"
  "canvas_width (updateAspect s) = canvas_width s"
  "canvas_height (updateAspect s) = canvas_height s"
  by (simp_all add: updateAspect_def Let_def onUpdate_def requestAnimationFrame_def)

lemma updateTexture_textures [simp]:
  "textureFrom (updateTexture s) = textureFrom s"
  "textureTo (updateTexture s) = textureTo s"
  "canvas_width (updateTexture s) = canvas_width s"
  "canvas_height (updateTexture s) = canvas_height s"
  by (simp_all add: updateTexture_def)

lemma setSize_textures [simp]:
  "textureFrom (setSize w h s) = textureFrom s"
  "textureTo (setSize w h s) = textureTo s"
  "canvas_width (setSize w h s) = w"
  "canvas_height (setSize w h s) = h"
  by (auto simp: setSize_def)

lemma new_sources [simp]:
  "image_src (textureFrom (ImageTransition_new p)) = p_sourceFrom p"
  "image_src (textureTo (ImageTransition_new p)) = p_sourceTo p"
  "canvas_width (ImageTransition_new p) = p_canvas_width p"
  "canvas_height (ImageTransition_new p) = p_canvas_height p"
  by (simp_all add: ImageTransition_new_def Let_def Texture_new_image_src)

lemma example_canvas [simp]:
  "canvas_width example_controller = 100"
  "canvas_height example_controller = 100"
  "image_src (textureFrom example_controller) = Some (HTMLImageElement 7 16 9)"
  by (simp_all add: example_controller_def example_params_def)

lemma updateAspect_gl:
  "gl (updateAspect s) =
     gl s @
     [let aspect = js_div
            (mediaAspect (if image_src (textureFrom s) \<noteq> None then image_src (textureFrom s)
                          else image_src (textureTo s)))
            (js_div (Num (real (canvas_width s))) (Num (real (canvas_height s))))
      in if js_lt aspect (Num 1) then Uniform2f U_uvScale (Num 1) aspect
         else Uniform2f U_uvScale (js_div (Num 1) aspect) (Num 1)]"
  by (simp add: updateAspect_def Let_def)

lemma destroy_keep [simp]:
  "textureFrom (destroy False s) = textureFrom s"
  "textureTo (destroy False s) = textureTo s"
  "canvas_width (destroy False s) = canvas_width s"
  "canvas_height (destroy False s) = canvas_height s"
  by (simp_all add: destroy_def Let_def)











subsection \<open>The invariants\<close>

lemma onUpdate_offsets [simp]:
  "list_all finite_offset (animationFrames (onUpdate s)) =
   list_all finite_offset (animationFrames s)"
  by (simp add: onUpdate_def requestAnimationFrame_def)

lemma updateAspect_offsets [simp]:
  "list_all finite_offset (animationFrames (updateAspect s)) =
   list_all finite_offset (animationFrames s)"
  by (simp add: updateAspect_def Let_def)

lemma updateTexture_offsets [simp]:
  "list_all finite_offset (animationFrames (updateTexture s)) =
   list_all finite_offset (animationFrames s)"
  by (simp add: updateTexture_def)

lemma setSize_offsets [simp]:
  "list_all finite_offset (animationFrames (setSize w h s)) =
   list_all finite_offset (animationFrames s)"
  by (simp add: setSize_def)

lemma put_texture_frames [simp]:
  "animationFrames (put_texture sl t s) = animationFrames s"
  by (cases sl; simp)

lemma updateTexture_pow_offsets [simp]:
  "list_all finite_offset (animationFrames ((updateTexture ^^ n) s)) =
   list_all finite_offset (animationFrames s)"
  by (induction n; simp)

lemma on_texture_offsets [simp]:
  "list_all finite_offset (animationFrames (on_texture sl f s)) =
   list_all finite_offset (animationFrames s)"
  by (simp add: on_texture_def Let_def)

lemma on_texture_pow_offsets [simp]:
  "list_all finite_offset (animationFrames ((on_texture sl f ^^ n) s)) =
   list_all finite_offset (animationFrames s)"
  by (induction n; simp)

lemma texture_image_load_offsets [simp]:
  "list_all finite_offset (animationFrames (texture_image_load sl e nw nh s)) =
   list_all finite_offset (animationFrames s)"
  by (simp add: texture_image_load_def Let_def element_decoded_def)

lemma destroy_offsets [simp]:
  "list_all finite_offset (animationFrames (destroy re s)) =
   list_all finite_offset (animationFrames s)"
  by (simp add: destroy_def Let_def)

lemma reset_frames [simp]: "animationFrames (reset s) = animationFrames s"
  by (simp add: reset_def)

lemma enter_tick_invariant: "invariant s \<Longrightarrow> invariant (enter_tick st se now s)"
  using clamp_range [of "js_div (js_add (Num (now - st)) se) (Num (duration s))"]
  by (auto simp: invariant_def enter_tick_def Let_def dispatchEvent_def
      requestAnimationFrame_def)

lemma leave_tick_invariant: "invariant s \<Longrightarrow> invariant (leave_tick st se now s)"
  using clamp_range
    [of "js_sub (Num 1) (js_div (js_add (Num (now - st)) se) (Num (duration s)))"]
  by (auto simp: invariant_def leave_tick_def Let_def dispatchEvent_def
      requestAnimationFrame_def)

lemma enter_tick_finite:
  "finite_invariant s \<Longrightarrow> finite_invariant (enter_tick st (Num x) now s)"
  by (auto simp: finite_invariant_def enter_tick_def Let_def dispatchEvent_def
      requestAnimationFrame_def)

lemma leave_tick_finite:
  "finite_invariant s \<Longrightarrow> finite_invariant (leave_tick st (Num x) now s)"
  by (auto simp: finite_invariant_def leave_tick_def Let_def dispatchEvent_def
      requestAnimationFrame_def)

lemma enter_invariant: "invariant s \<Longrightarrow> invariant (enter now0 now1 s)"
proof -
  assume a: "invariant s"
  then have "invariant (s\<lparr>isEntering := True, isLeaving := False\<rparr>)"
    by (simp add: invariant_def)
  then have "invariant (enter_tick now0 (js_mul (Num (duration s)) (progress s)) now1
      (s\<lparr>isEntering := True, isLeaving := False\<rparr>))"
    by (rule enter_tick_invariant)
  with a show ?thesis by (simp add: enter_def)
qed

lemma leave_invariant: "invariant s \<Longrightarrow> invariant (leave now0 now1 s)"
proof -
  assume a: "invariant s"
  then have "invariant (s\<lparr>isLeaving := True, isEntering := False\<rparr>)"
    by (simp add: invariant_def)
  then have "invariant (leave_tick now0 (js_mul (Num (duration s)) (js_sub (Num 1) (progress s)))
      now1 (s\<lparr>isLeaving := True, isEntering := False\<rparr>))"
    by (rule leave_tick_invariant)
  with a show ?thesis by (simp add: leave_def)
qed

lemma enter_finite: "finite_invariant s \<Longrightarrow> finite_invariant (enter now0 now1 s)"
proof -
  assume a: "finite_invariant s"
  then obtain x where x: "progress s = Num x" by (auto simp: finite_invariant_def)
  from a have "finite_invariant (s\<lparr>isEntering := True, isLeaving := False\<rparr>)"
    by (simp add: finite_invariant_def)
  then have "finite_invariant (enter_tick now0 (Num (duration s * x)) now1
      (s\<lparr>isEntering := True, isLeaving := False\<rparr>))"
    by (rule enter_tick_finite)
  with a x show ?thesis by (simp add: enter_def)
qed

lemma leave_finite: "finite_invariant s \<Longrightarrow> finite_invariant (leave now0 now1 s)"
proof -
  assume a: "finite_invariant s"
  then obtain x where x: "progress s = Num x" by (auto simp: finite_invariant_def)
  from a have "finite_invariant (s\<lparr>isLeaving := True, isEntering := False\<rparr>)"
    by (simp add: finite_invariant_def)
  then have "finite_invariant (leave_tick now0 (Num (duration s * (1 - x))) now1
      (s\<lparr>isLeaving := True, isEntering := False\<rparr>))"
    by (rule leave_tick_finite)
  with a x show ?thesis by (simp add: leave_def)
qed

lemma run_callback_invariant: "invariant s \<Longrightarrow> invariant (run_callback now cb s)"
proof (cases cb)
  case (EnterTick st se)
  assume "invariant s"
  then show ?thesis unfolding EnterTick run_callback_def
    by (simp add: enter_tick_invariant)
next
  case (LeaveTick st se)
  assume "invariant s"
  then show ?thesis unfolding LeaveTick run_callback_def
    by (simp add: leave_tick_invariant)
next
  case UpdateRender
  assume "invariant s"
  then show ?thesis unfolding UpdateRender run_callback_def
    by (simp add: invariant_def)
qed

lemma animationFrame_invariant: "invariant s \<Longrightarrow> invariant (animationFrame now s)"
proof (cases "animationFrames s")
  case Nil
  assume "invariant s"
  with Nil show ?thesis by (simp add: animationFrame_def)
next
  case (Cons cb rest)
  assume "invariant s"
  then have "invariant (s\<lparr>animationFrames := rest\<rparr>)" by (simp add: invariant_def)
  then have "invariant (run_callback now cb (s\<lparr>animationFrames := rest\<rparr>))"
    by (rule run_callback_invariant)
  with Cons show ?thesis by (simp add: animationFrame_def)
qed

lemma run_callback_finite:
  "finite_invariant s \<Longrightarrow> finite_offset cb \<Longrightarrow> finite_invariant (run_callback now cb s)"
proof (cases cb)
  case (EnterTick st se)
  assume a: "finite_invariant s" "finite_offset cb"
  then obtain x where "se = Num x" unfolding EnterTick by (cases se) simp_all
  with a show ?thesis unfolding EnterTick run_callback_def
    by (simp add: enter_tick_finite)
next
  case (LeaveTick st se)
  assume a: "finite_invariant s" "finite_offset cb"
  then obtain x where "se = Num x" unfolding LeaveTick by (cases se) simp_all
  with a show ?thesis unfolding LeaveTick run_callback_def
    by (simp add: leave_tick_finite)
next
  case UpdateRender
  assume "finite_invariant s" "finite_offset cb"
  then show ?thesis unfolding UpdateRender run_callback_def
    by (simp add: finite_invariant_def)
qed

lemma animationFrame_finite:
  "finite_invariant s \<Longrightarrow> finite_invariant (animationFrame now s)"
proof (cases "animationFrames s")
  case Nil
  assume "finite_invariant s"
  with Nil show ?thesis by (simp add: animationFrame_def)
next
  case (Cons cb rest)
  assume a: "finite_invariant s"
  with Cons have "finite_invariant (s\<lparr>animationFrames := rest\<rparr>)" "finite_offset cb"
    by (simp_all add: finite_invariant_def)
  then have "finite_invariant (run_callback now cb (s\<lparr>animationFrames := rest\<rparr>))"
    by (rule run_callback_finite)
  with Cons show ?thesis by (simp add: animationFrame_def)
qed

lemma step_invariant: "invariant s \<Longrightarrow> invariant (step x s)"
proof (cases x)
  case (Enter a b) assume "invariant s"
  then show ?thesis unfolding Enter by (simp add: enter_invariant)
next
  case (Leave a b) assume "invariant s"
  then show ?thesis unfolding Leave by (simp add: leave_invariant)
next
  case (AnimationFrame a) assume "invariant s"
  then show ?thesis unfolding AnimationFrame by (simp add: animationFrame_invariant)
next
  case Stop assume "invariant s" then show ?thesis unfolding Stop by (simp add: invariant_def)
next
  case Reset assume "invariant s" then show ?thesis unfolding Reset by (simp add: invariant_def)
next
  case (SetSize w h) assume "invariant s"
  then show ?thesis unfolding SetSize by (simp add: invariant_def)
next
  case (SetFromImage i) assume "invariant s"
  then show ?thesis unfolding SetFromImage by (simp add: invariant_def setFromImage_def)
next
  case (SetToImage i) assume "invariant s"
  then show ?thesis unfolding SetToImage by (simp add: invariant_def setToImage_def)
next
  case Render assume "invariant s" then show ?thesis unfolding Render by (simp add: invariant_def)
next
  case (Destroy re) assume "invariant s"
  then show ?thesis unfolding Destroy by (simp add: invariant_def)
next
  case (ImageLoad sl e nw nh) assume "invariant s"
  then show ?thesis unfolding ImageLoad by (simp add: invariant_def)
qed

lemma step_finite: "finite_invariant s \<Longrightarrow> finite_invariant (step x s)"
proof (cases x)
  case (Enter a b) assume "finite_invariant s"
  then show ?thesis unfolding Enter by (simp add: enter_finite)
next
  case (Leave a b) assume "finite_invariant s"
  then show ?thesis unfolding Leave by (simp add: leave_finite)
next
  case (AnimationFrame a) assume "finite_invariant s"
  then show ?thesis unfolding AnimationFrame by (simp add: animationFrame_finite)
next
  case Stop assume "finite_invariant s"
  then show ?thesis unfolding Stop by (simp add: finite_invariant_def)
next
  case Reset assume "finite_invariant s"
  then show ?thesis unfolding Reset by (simp add: finite_invariant_def)
next
  case (SetSize w h) assume "finite_invariant s"
  then show ?thesis unfolding SetSize by (simp add: finite_invariant_def)
next
  case (SetFromImage i) assume "finite_invariant s"
  then show ?thesis unfolding SetFromImage by (simp add: finite_invariant_def setFromImage_def)
next
  case (SetToImage i) assume "finite_invariant s"
  then show ?thesis unfolding SetToImage by (simp add: finite_invariant_def setToImage_def)
next
  case Render assume "finite_invariant s"
  then show ?thesis unfolding Render by (simp add: finite_invariant_def)
next
  case (Destroy re) assume "finite_invariant s"
  then show ?thesis unfolding Destroy by (simp add: finite_invariant_def)
next
  case (ImageLoad sl e nw nh) assume "finite_invariant s"
  then show ?thesis unfolding ImageLoad by (simp add: finite_invariant_def)
qed

lemma run_invariant: "invariant s \<Longrightarrow> invariant (run xs s)"
  by (induction xs arbitrary: s) (simp_all add: step_invariant)

lemma run_finite: "finite_invariant s \<Longrightarrow> finite_invariant (run xs s)"
  by (induction xs arbitrary: s) (simp_all add: step_finite)

lemma new_invariant: "invariant (ImageTransition_new p)"
  by (simp add: invariant_def)

lemma new_finite: "p_duration p \<noteq> Some 0 \<Longrightarrow> finite_invariant (ImageTransition_new p)"
  by (cases "p_duration p") (simp_all add: finite_invariant_def new_quiet)

subsection \<open>The shader\<close>

lemma outside_unit_iff: "outside_unit p = (\<not> unit_square p)"
  by (auto simp: outside_unit_def unit_square_def)

lemma displacement_eq:
  "displacement e uv =
     standard_rotation (- (defaultAngle + direction e))
       (red (textureDisplacement_s e uv), green (textureDisplacement_s e uv))"
proof -
  have "mat2_vec (rotationMatrix t) v = standard_rotation (- t) v" for t v
    by (simp add: standard_rotation_def rotationMatrix_def mat2_vec_def Let_def)
  then show ?thesis by (simp only: displacement_def)
qed

lemma standard_rotation_norm:
  "(fst (standard_rotation t v))\<^sup>2 + (snd (standard_rotation t v))\<^sup>2 = (fst v)\<^sup>2 + (snd v)\<^sup>2"
proof -
  have "(c * x - s * y)\<^sup>2 + (s * x + c * y)\<^sup>2 = (s\<^sup>2 + c\<^sup>2) * (x\<^sup>2 + y\<^sup>2)"
    for c s x y :: real
    by algebra
  then have "(fst (standard_rotation t v))\<^sup>2 + (snd (standard_rotation t v))\<^sup>2
      = ((sin t)\<^sup>2 + (cos t)\<^sup>2) * ((fst v)\<^sup>2 + (snd v)\<^sup>2)"
    by (simp only: standard_rotation_def fst_conv snd_conv)
  then show ?thesis by simp
qed

subsection \<open>The constant for 45 degrees\<close>

lemma arctan_partial_sums:
  fixes x :: real
  assumes "0 \<le> x" "x \<le> 1"
  shows "(\<Sum>i<2 * n. (-1) ^ i * (1 / real (i * 2 + 1) * x ^ (i * 2 + 1))) \<le> arctan x"
    and "arctan x \<le> (\<Sum>i<2 * n + 1. (-1) ^ i * (1 / real (i * 2 + 1) * x ^ (i * 2 + 1)))"
proof -
  let ?a = "\<lambda>n. 1 / real (n * 2 + 1) * x ^ (n * 2 + 1)"
  have ax: "\<bar>x\<bar> \<le> 1" using assms by simp
  have z: "?a \<longlonglongrightarrow> 0" by (rule zeroseq_arctan_series [OF ax])
  have p: "0 \<le> ?a n" for n using assms by simp
  have m: "?a (Suc n) \<le> ?a n" for n
  proof -
    have e: "x ^ (Suc n * 2 + 1) = x ^ (n * 2 + 1) * x\<^sup>2"
      by (simp add: power2_eq_square)
    have "x ^ (n * 2 + 1) * x\<^sup>2 \<le> x ^ (n * 2 + 1) * 1"
      using assms by (intro mult_left_mono) (simp_all add: power_le_one)
    then have 1: "x ^ (Suc n * 2 + 1) \<le> x ^ (n * 2 + 1)"
      by (simp only: e mult_1_right)
    have 2: "1 / real (Suc n * 2 + 1) \<le> 1 / real (n * 2 + 1)"
      by (simp add: field_simps)
    show ?thesis
      using 1 2 assms by (intro mult_mono) simp_all
  qed
  have s: "arctan x = (\<Sum>k. (-1) ^ k * ?a k)"
    by (rule arctan_series [OF ax])
  show "(\<Sum>i<2 * n. (-1) ^ i * ?a i) \<le> arctan x"
    unfolding s by (rule summable_Leibniz'(2) [OF z p m])
  show "arctan x \<le> (\<Sum>i<2 * n + 1. (-1) ^ i * ?a i)"
    unfolding s by (rule summable_Leibniz'(4) [OF z p m])
qed

lemma arctan_fifth_upper: "arctan (1 / 5) \<le> 2170821043343 / 10997314453125"
proof -
  have "arctan (1 / 5 :: real)
      \<le> (\<Sum>i<2 * 3 + 1. (-1) ^ i * (1 / real (i * 2 + 1) * (1 / 5) ^ (i * 2 + 1)))"
    by (rule arctan_partial_sums(2)) simp_all
  also have "\<dots> = 2170821043343 / 10997314453125"
    by (simp add: eval_nat_numeral)
  finally show ?thesis .
qed

lemma arctan_fifth_lower: "271352630414872 / 1374664306640625 \<le> arctan (1 / 5)"
proof -
  have "(\<Sum>i<2 * 4. (-1) ^ i * (1 / real (i * 2 + 1) * (1 / 5) ^ (i * 2 + 1)))
      \<le> arctan (1 / 5 :: real)"
    by (rule arctan_partial_sums(1)) simp_all
  moreover have "(\<Sum>i<2 * 4. (-1) ^ i * (1 / real (i * 2 + 1) * (1 / 5) ^ (i * 2 + 1)))
      = (271352630414872 / 1374664306640625 :: real)"
    by (simp add: eval_nat_numeral)
  ultimately show ?thesis by simp
qed

lemma arctan_239_upper: "arctan (1 / 239) \<le> 48941844013 / 11697168977985"
proof -
  have "arctan (1 / 239 :: real)
      \<le> (\<Sum>i<2 * 1 + 1. (-1) ^ i * (1 / real (i * 2 + 1) * (1 / 239) ^ (i * 2 + 1)))"
    by (rule arctan_partial_sums(2)) simp_all
  also have "\<dots> = 48941844013 / 11697168977985"
    by (simp add: eval_nat_numeral)
  finally show ?thesis .
qed

lemma arctan_239_lower: "171362 / 40955757 \<le> arctan (1 / 239)"
proof -
  have "(\<Sum>i<2 * 1. (-1) ^ i * (1 / real (i * 2 + 1) * (1 / 239) ^ (i * 2 + 1)))
      \<le> arctan (1 / 239 :: real)"
    by (rule arctan_partial_sums(1)) simp_all
  moreover have "(\<Sum>i<2 * 1. (-1) ^ i * (1 / real (i * 2 + 1) * (1 / 239) ^ (i * 2 + 1)))
      = (171362 / 40955757 :: real)"
    by (simp add: eval_nat_numeral)
  ultimately show ?thesis by simp
qed

lemma defaultAngle_near_quarter_pi:
  "defaultAngle < pi / 4 \<and> pi / 4 - defaultAngle < 1 / 10 ^ 9"
proof -
  have m: "pi / 4 = 4 * arctan (1 / 5) - arctan (1 / 239)"
    by (rule machin)
  have lo: "4 * (271352630414872 / 1374664306640625) - 48941844013 / 11697168977985 \<le> pi / 4"
    unfolding m using arctan_fifth_lower arctan_239_upper by linarith
  have up: "pi / 4 \<le> 4 * (2170821043343 / 10997314453125) - 171362 / 40955757"
    unfolding m using arctan_fifth_upper arctan_239_lower by linarith
  have 1: "defaultAngle
      < 4 * (271352630414872 / 1374664306640625) - 48941844013 / 11697168977985"
    by (simp add: defaultAngle_def)
  have 2: "4 * (2170821043343 / 10997314453125) - 171362 / 40955757 - defaultAngle
      < 1 / 10 ^ 9"
    by (simp add: defaultAngle_def)
  from lo up 1 2 show ?thesis by linarith
qed

lemma sin_defaultAngle_pos: "0 < sin defaultAngle"
proof -
  have "0 < defaultAngle" by (simp add: defaultAngle_def)
  moreover have "defaultAngle < pi"
    using defaultAngle_near_quarter_pi pi_gt_zero by linarith
  ultimately show ?thesis by (rule sin_gt_zero)
qed

lemma quarter_turn_fields [simp]:
  "intensity quarter_turn_env = 1"
  "defaultAngle + direction quarter_turn_env = pi / 2"
  "u_progress quarter_turn_env = 1 / 4"
  "disableFromImage quarter_turn_env = 0"
  "disableToImage quarter_turn_env = 0"
  "textureFrom_s quarter_turn_env p = \<lparr>red = fst p, green = snd p, blue = 0, alpha = 1\<rparr>"
  "textureTo_s quarter_turn_env p = \<lparr>red = 0, green = snd p, blue = fst p, alpha = 1\<rparr>"
  "textureDisplacement_s quarter_turn_env p = \<lparr>red = 1, green = 0, blue = 0, alpha = 1\<rparr>"
  by (simp_all add: quarter_turn_env_def example_env_def)

section \<open>The tick loop\<close>




section \<open>Switching direction\<close>




section \<open>stop and reset\<close>

text \<open>
  Claim C6. When Entering or Leaving is set, \<^verbatim>\<open>stop()\<close> clears both flags and dispatches
  exactly one \<^verbatim>\<open>transitionEnd\<close>, and nothing else of the state changes (progress
  included); when neither is set, \<^verbatim>\<open>stop()\<close> changes nothing and dispatches nothing.
\<close>

theorem stop_frame:
  "(isEntering s \<or> isLeaving s \<longrightarrow>
      stop s = s\<lparr>isEntering := False, isLeaving := False,
                 dispatched := dispatched s @ [TransitionEnd]\<rparr>)
   \<and> (\<not> isEntering s \<and> \<not> isLeaving s \<longrightarrow> stop s = s)"
  by (auto simp: stop_def dispatchEvent_def)

theorem stop_frame_witness:
  "isEntering entering_example
   \<and> stop entering_example =
      entering_example\<lparr>isEntering := False, isLeaving := False,
                 dispatched := dispatched entering_example @ [TransitionEnd]\<rparr>
   \<and> isLeaving leaving_example
   \<and> stop leaving_example =
      leaving_example\<lparr>isEntering := False, isLeaving := False,
                 dispatched := dispatched leaving_example @ [TransitionEnd]\<rparr>
   \<and> \<not> isEntering example_controller \<and> \<not> isLeaving example_controller
   \<and> stop example_controller = example_controller"
  using stop_frame [of entering_example] stop_frame [of leaving_example]
    stop_frame [of example_controller]
  by simp

text \<open>
  Claim C7. \<^verbatim>\<open>reset()\<close> is \<^verbatim>\<open>stop()\<close>, then progress set to 0, then one \<^verbatim>\<open>render()\<close>.
  Afterwards progress is 0 and both flags are cleared; \<^verbatim>\<open>transitionEnd\<close> is dispatched
  exactly once if a flag was set before and not at all otherwise; the render draws once
  (with eased progress 0) unless the controller has been destroyed.
\<close>

theorem reset_behaviour:
  "reset s = render ((stop s)\<lparr>progress := Num 0\<rparr>)
   \<and> progress (reset s) = Num 0 \<and> \<not> isEntering (reset s) \<and> \<not> isLeaving (reset s)
   \<and> dispatched (reset s) =
       dispatched s @ (if isEntering s \<or> isLeaving s then [TransitionEnd] else [])
   \<and> gl (reset s) =
       gl s @ (if destroyed s then []
               else [ClearColor 0 0 0 0, Uniform1f U_progress (Num 0), Clear,
                     DrawArrays 0 6, Flush])"
  by (auto simp: reset_def stop_def dispatchEvent_def render_def Let_def draw_calls_def
      easeInOutSine_0)

section \<open>enter at the end\<close>

text \<open>
  Claim C8. When progress is 1, and when the Entering flag is already set, \<^verbatim>\<open>enter()\<close>
  returns the state as it is: no tick is run or queued, progress and the flags are
  unchanged, nothing is dispatched.
\<close>

theorem enter_at_end_is_noop:
  "progress s = Num 1 \<or> isEntering s \<Longrightarrow> enter now0 now1 s = s"
  by (auto simp: enter_def)

theorem enter_at_end_is_noop_witness:
  "progress finished_example = Num 1 \<and> enter 3000 3000 finished_example = finished_example
   \<and> isEntering entering_example \<and> enter 1000 1000 entering_example = entering_example"
  using enter_at_end_is_noop [of finished_example 3000 3000]
    enter_at_end_is_noop [of entering_example 1000 1000]
  by simp

section \<open>The invariant of the controller\<close>

text \<open>
  Claim C3, as the code has it. After construction and after every sequence of public
  operations (\<^verbatim>\<open>enter\<close>, \<^verbatim>\<open>leave\<close>, \<^verbatim>\<open>stop\<close>, \<^verbatim>\<open>reset\<close>, \<^verbatim>\<open>setSize\<close>,
  \<^verbatim>\<open>setFromImage\<close>, \<^verbatim>\<open>setToImage\<close>, \<^verbatim>\<open>render\<close>, \<^verbatim>\<open>destroy\<close>), animation frame callbacks
  (ticks) and image load events, at most one of the Entering and Leaving flags is set, and
  the progress is a number in [0,1] or NaN; when the duration given to the constructor (a
  finite number, or left out) is not 0, the progress is a number in [0,1].
\<close>

theorem progress_and_flags_invariant:
  "\<not> (isEntering (run xs (ImageTransition_new p)) \<and> isLeaving (run xs (ImageTransition_new p)))
   \<and> (progress (run xs (ImageTransition_new p)) = NaN
      \<or> (\<exists>x. progress (run xs (ImageTransition_new p)) = Num x \<and> 0 \<le> x \<and> x \<le> 1))
   \<and> (p_duration p \<noteq> Some 0 \<longrightarrow>
      (\<exists>x. progress (run xs (ImageTransition_new p)) = Num x \<and> 0 \<le> x \<and> x \<le> 1))"
proof -
  have "invariant (run xs (ImageTransition_new p))"
    by (rule run_invariant [OF new_invariant])
  moreover have "p_duration p \<noteq> Some 0 \<Longrightarrow> finite_invariant (run xs (ImageTransition_new p))"
    by (rule run_finite [OF new_finite])
  ultimately show ?thesis by (auto simp: invariant_def finite_invariant_def)
qed

theorem progress_and_flags_invariant_witness:
  "p_duration example_params \<noteq> Some 0
   \<and> \<not> (isEntering (run [Enter 0 0, AnimationFrame 1000, Leave 1000 1000]
            (ImageTransition_new example_params))
        \<and> isLeaving (run [Enter 0 0, AnimationFrame 1000, Leave 1000 1000]
            (ImageTransition_new example_params)))
   \<and> (\<exists>x. progress (run [Enter 0 0, AnimationFrame 1000, Leave 1000 1000]
            (ImageTransition_new example_params)) = Num x \<and> 0 \<le> x \<and> x \<le> 1)"
  using progress_and_flags_invariant
    [where p = example_params and xs = "[Enter 0 0, AnimationFrame 1000, Leave 1000 1000]"]
  by (simp add: example_params_def)

text \<open>
  The claim as stated has the progress in [0,1] in every case. Constructed with a duration
  of 0, the controller has the progress NaN after \<^verbatim>\<open>enter()\<close>: the first tick divides 0
  by 0.
\<close>

theorem progress_and_flags_invariant_counterexample:
  "duration zero_duration_controller = 0
   \<and> progress (run [Enter 0 0] zero_duration_controller) = NaN
   \<and> \<not> js_lt (Num (- 1)) (progress (run [Enter 0 0] zero_duration_controller))
   \<and> \<not> js_lt (progress (run [Enter 0 0] zero_duration_controller)) (Num 2)"
  by (simp add: zero_duration_controller_def example_params_def enter_def enter_tick_def
      Let_def dispatchEvent_def requestAnimationFrame_def)

section \<open>The fragment stage\<close>

text \<open>
  Claim C4, as the code has it. For a fragment at the coordinate \<open>uv\<close>: the red and green
  channels of the displacement sample are rotated by the angle
  \<open>- (defaultAngle + direction)\<close> in the counterclockwise convention of \<open>standard_rotation\<close>,
  that is clockwise by \<open>defaultAngle + direction\<close>, because the matrix
  \<^verbatim>\<open>mat2( c, -s, s, c )\<close> is filled by columns (it is a rotation, so lengths are kept);
  \<^verbatim>\<open>defaultAngle\<close> is the source's \<^verbatim>\<open>3.14159265 / 4.\<close>, which lies below \<open>pi / 4\<close> (45
  degrees) by less than \<open>1 / 10 ^ 9\<close>. Then \<open>pos1 = uv + offset * intensity * progress\<close> and
  \<open>pos2 = uv + offset * intensity * (1 - progress)\<close>; ``from'' is sampled at \<open>pos1\<close> and ``to''
  at \<open>pos2\<close>. The output: if ``from'' is absent, transparent where \<open>pos2\<close> is outside the unit
  square and otherwise the ``to'' sample with its alpha multiplied by progress; else if ``to''
  is absent, the same with \<open>pos1\<close>, the ``from'' sample and \<open>1 - progress\<close>; else the linear
  interpolation of the two samples by progress.
\<close>

theorem fragment_colour:
  "(defaultAngle < pi / 4 \<and> pi / 4 - defaultAngle < 1 / 10 ^ 9)
   \<and> (let off = standard_rotation (- (defaultAngle + direction e))
                (red (textureDisplacement_s e uv), green (textureDisplacement_s e uv));
        pos1 = (fst uv + fst off * intensity e * u_progress e,
                snd uv + snd off * intensity e * u_progress e);
        pos2 = (fst uv + fst off * intensity e * (1 - u_progress e),
                snd uv + snd off * intensity e * (1 - u_progress e));
        fromColor = textureFrom_s e pos1;
        toColor = textureTo_s e pos2
    in displacement e uv = off
       \<and> (fst off)\<^sup>2 + (snd off)\<^sup>2 =
           (red (textureDisplacement_s e uv))\<^sup>2 + (green (textureDisplacement_s e uv))\<^sup>2
       \<and> distortedPosition1 e uv = pos1
       \<and> distortedPosition2 e uv = pos2
       \<and> frag_main e uv =
           (if disableFromImage e = 1 then
              (if unit_square pos2
               then \<lparr>red = red toColor, green = green toColor, blue = blue toColor,
                     alpha = alpha toColor * u_progress e\<rparr>
               else transparent)
            else if disableToImage e = 1 then
              (if unit_square pos1
               then \<lparr>red = red fromColor, green = green fromColor, blue = blue fromColor,
                     alpha = alpha fromColor * (1 - u_progress e)\<rparr>
               else transparent)
            else \<lparr>red = red fromColor + (red toColor - red fromColor) * u_progress e,
                  green = green fromColor + (green toColor - green fromColor) * u_progress e,
                  blue = blue fromColor + (blue toColor - blue fromColor) * u_progress e,
                  alpha = alpha fromColor + (alpha toColor - alpha fromColor) * u_progress e\<rparr>))"
proof -
  let ?off = "standard_rotation (- (defaultAngle + direction e))
                (red (textureDisplacement_s e uv), green (textureDisplacement_s e uv))"
  have d: "displacement e uv = ?off" by (rule displacement_eq)
  have n: "(fst ?off)\<^sup>2 + (snd ?off)\<^sup>2 =
           (red (textureDisplacement_s e uv))\<^sup>2 + (green (textureDisplacement_s e uv))\<^sup>2"
    by (simp only: standard_rotation_norm) simp
  have p1: "distortedPosition1 e uv =
      (fst uv + fst ?off * intensity e * u_progress e,
       snd uv + snd ?off * intensity e * u_progress e)"
    by (simp only: distortedPosition1_def d) (simp add: vec2_add_def vec2_scale_def)
  have p2: "distortedPosition2 e uv =
      (fst uv + fst ?off * intensity e * (1 - u_progress e),
       snd uv + snd ?off * intensity e * (1 - u_progress e))"
    by (simp only: distortedPosition2_def d) (simp add: vec2_add_def vec2_scale_def)
  have m: "mix x y t =
      \<lparr>red = red x + (red y - red x) * t, green = green x + (green y - green x) * t,
       blue = blue x + (blue y - blue x) * t, alpha = alpha x + (alpha y - alpha x) * t\<rparr>"
    for x y t
    by (simp add: mix_def algebra_simps)
  show ?thesis
    unfolding Let_def
    by (intro conjI d n p1 p2 defaultAngle_near_quarter_pi [THEN conjunct1]
        defaultAngle_near_quarter_pi [THEN conjunct2])
      (simp add: frag_main_def Let_def p1 p2 outside_unit_iff transparent_def m)
qed

theorem fragment_colour_witness:
  "(displacement quarter_turn_env (1 / 2, 3 / 4) = (0, - 1)
    \<and> distortedPosition1 quarter_turn_env (1 / 2, 3 / 4) = (1 / 2, 1 / 2)
    \<and> distortedPosition2 quarter_turn_env (1 / 2, 3 / 4) = (1 / 2, 0)
    \<and> frag_main quarter_turn_env (1 / 2, 3 / 4) =
        \<lparr>red = 3 / 8, green = 3 / 8, blue = 1 / 8, alpha = 1\<rparr>)
   \<and> (frag_main (quarter_turn_env\<lparr>disableFromImage := 1\<rparr>) (1 / 2, 3 / 4) =
        \<lparr>red = 0, green = 0, blue = 1 / 2, alpha = 1 / 4\<rparr>
    \<and> frag_main (quarter_turn_env\<lparr>disableFromImage := 1\<rparr>) (1 / 2, 1 / 2) = transparent)
   \<and> (frag_main (quarter_turn_env\<lparr>disableToImage := 1\<rparr>) (1 / 2, 3 / 4) =
        \<lparr>red = 1 / 2, green = 1 / 2, blue = 0, alpha = 3 / 4\<rparr>
    \<and> frag_main (quarter_turn_env\<lparr>disableToImage := 1\<rparr>) (1 / 2, 1 / 8) = transparent)"
proof -
  have 1: "displacement quarter_turn_env (1 / 2, 3 / 4) = (0, - 1)
    \<and> distortedPosition1 quarter_turn_env (1 / 2, 3 / 4) = (1 / 2, 1 / 2)
    \<and> distortedPosition2 quarter_turn_env (1 / 2, 3 / 4) = (1 / 2, 0)
    \<and> frag_main quarter_turn_env (1 / 2, 3 / 4) =
        \<lparr>red = 3 / 8, green = 3 / 8, blue = 1 / 8, alpha = 1\<rparr>"
    using fragment_colour [where e = quarter_turn_env and uv = "(1 / 2, 3 / 4)"]
    by (simp add: standard_rotation_def Let_def)
  have 2: "frag_main (quarter_turn_env\<lparr>disableFromImage := 1\<rparr>) (1 / 2, 3 / 4) =
        \<lparr>red = 0, green = 0, blue = 1 / 2, alpha = 1 / 4\<rparr>"
    using fragment_colour
      [where e = "quarter_turn_env\<lparr>disableFromImage := 1\<rparr>" and uv = "(1 / 2, 3 / 4)"]
    by (simp add: standard_rotation_def Let_def unit_square_def)
  have 3: "frag_main (quarter_turn_env\<lparr>disableFromImage := 1\<rparr>) (1 / 2, 1 / 2) = transparent"
    using fragment_colour
      [where e = "quarter_turn_env\<lparr>disableFromImage := 1\<rparr>" and uv = "(1 / 2, 1 / 2)"]
    by (simp add: standard_rotation_def Let_def unit_square_def)
  have 4: "frag_main (quarter_turn_env\<lparr>disableToImage := 1\<rparr>) (1 / 2, 3 / 4) =
        \<lparr>red = 1 / 2, green = 1 / 2, blue = 0, alpha = 3 / 4\<rparr>"
    using fragment_colour
      [where e = "quarter_turn_env\<lparr>disableToImage := 1\<rparr>" and uv = "(1 / 2, 3 / 4)"]
    by (simp add: standard_rotation_def Let_def unit_square_def)
  have 5: "frag_main (quarter_turn_env\<lparr>disableToImage := 1\<rparr>) (1 / 2, 1 / 8) = transparent"
    using fragment_colour
      [where e = "quarter_turn_env\<lparr>disableToImage := 1\<rparr>" and uv = "(1 / 2, 1 / 8)"]
    by (simp add: standard_rotation_def Let_def unit_square_def)
  from 1 2 3 4 5 show ?thesis by simp
qed

text \<open>
  The claim as stated has a rotation by 45 degrees plus \<^verbatim>\<open>direction\<close>. The constant of the
  source is not \<open>pi / 4\<close>, and for the sample \<open>(1, 0)\<close> and \<^verbatim>\<open>direction\<close> 0 the shader's
  offset is \<open>(cos a, - sin a)\<close> where the rotation by the angle \<open>a\<close> gives \<open>(cos a, sin a)\<close>,
  with \<open>sin a\<close> positive.
\<close>

theorem fragment_colour_counterexample:
  "red (textureDisplacement_s example_env (1 / 2, 1 / 2)) = 1
   \<and> green (textureDisplacement_s example_env (1 / 2, 1 / 2)) = 0
   \<and> direction example_env = 0
   \<and> snd (displacement example_env (1 / 2, 1 / 2)) < 0
   \<and> 0 < snd (standard_rotation (defaultAngle + direction example_env) (1, 0))
   \<and> 0 < snd (standard_rotation (pi / 4 + direction example_env) (1, 0))"
  using sin_defaultAngle_pos
  by (simp add: example_env_def displacement_def rotationMatrix_def mat2_vec_def Let_def
      standard_rotation_def sin_45)

section \<open>The aspect\<close>

text \<open>
  Claim C5. In every state \<^verbatim>\<open>_updateAspect\<close> takes the source of the ``from'' texture when
  there is one and that of the ``to'' texture otherwise; the media aspect is natural width
  by natural height for an image element, width by height for a canvas, and 1 for a video
  or when there is no source; with \<open>ratio = mediaAspect / canvasAspect\<close> it sets the uniform
  \<^verbatim>\<open>uvScale\<close> to \<open>(1, ratio)\<close> when \<open>ratio < 1\<close> and to \<open>(1 / ratio, 1)\<close> otherwise, the
  quotients and the comparison being those of JavaScript numbers. For an image and a canvas
  with nonzero sizes the ratio is the real number
  \<open>(nw / nh) / (canvas width / canvas height)\<close>, and an image of 16 by 9 on a square canvas
  gives \<open>(9/16, 1)\<close>.
\<close>

theorem updateAspect_uvScale:
  "(let img = (case image_src (textureFrom s) of
                 Some i \<Rightarrow> Some i
               | None \<Rightarrow> image_src (textureTo s));
        media = (case img of
                   Some (HTMLImageElement e nw nh) \<Rightarrow> js_div (Num (real nw)) (Num (real nh))
                 | Some (HTMLCanvasElement w h) \<Rightarrow> js_div (Num (real w)) (Num (real h))
                 | Some (HTMLVideoElement w h) \<Rightarrow> Num 1
                 | None \<Rightarrow> Num 1);
        ratio = js_div media (js_div (Num (real (canvas_width s))) (Num (real (canvas_height s))))
    in gl (updateAspect s) =
         gl s @ [if js_lt ratio (Num 1) then Uniform2f U_uvScale (Num 1) ratio
                 else Uniform2f U_uvScale (js_div (Num 1) ratio) (Num 1)])
   \<and> ((image_src (textureFrom s) = Some (HTMLImageElement e nw nh)
        \<or> image_src (textureFrom s) = None
           \<and> image_src (textureTo s) = Some (HTMLImageElement e nw nh))
       \<and> nw \<noteq> 0 \<and> nh \<noteq> 0 \<and> canvas_width s \<noteq> 0 \<and> canvas_height s \<noteq> 0
       \<and> r = (real nw / real nh) / (real (canvas_width s) / real (canvas_height s))
      \<longrightarrow> gl (updateAspect s) =
            gl s @ [if r < 1 then Uniform2f U_uvScale (Num 1) (Num r)
                    else Uniform2f U_uvScale (Num (1 / r)) (Num 1)])
   \<and> ((image_src (textureFrom s) = Some (HTMLImageElement e 16 9)
        \<or> image_src (textureFrom s) = None
           \<and> image_src (textureTo s) = Some (HTMLImageElement e 16 9))
       \<and> canvas_width s = canvas_height s \<and> canvas_height s \<noteq> 0
      \<longrightarrow> gl (updateAspect s) = gl s @ [Uniform2f U_uvScale (Num (9 / 16)) (Num 1)])"
proof (intro conjI impI)
  show "let img = (case image_src (textureFrom s) of
                 Some i \<Rightarrow> Some i
               | None \<Rightarrow> image_src (textureTo s));
        media = (case img of
                   Some (HTMLImageElement e nw nh) \<Rightarrow> js_div (Num (real nw)) (Num (real nh))
                 | Some (HTMLCanvasElement w h) \<Rightarrow> js_div (Num (real w)) (Num (real h))
                 | Some (HTMLVideoElement w h) \<Rightarrow> Num 1
                 | None \<Rightarrow> Num 1);
        ratio = js_div media (js_div (Num (real (canvas_width s))) (Num (real (canvas_height s))))
    in gl (updateAspect s) =
         gl s @ [if js_lt ratio (Num 1) then Uniform2f U_uvScale (Num 1) ratio
                 else Uniform2f U_uvScale (js_div (Num 1) ratio) (Num 1)]"
    by (cases "image_src (textureFrom s)")
      (simp_all add: updateAspect_gl mediaAspect_def Let_def)
next
  assume h: "(image_src (textureFrom s) = Some (HTMLImageElement e nw nh)
        \<or> image_src (textureFrom s) = None
           \<and> image_src (textureTo s) = Some (HTMLImageElement e nw nh))
       \<and> nw \<noteq> 0 \<and> nh \<noteq> 0 \<and> canvas_width s \<noteq> 0 \<and> canvas_height s \<noteq> 0
       \<and> r = (real nw / real nh) / (real (canvas_width s) / real (canvas_height s))"
  then have i: "(if image_src (textureFrom s) \<noteq> None then image_src (textureFrom s)
                 else image_src (textureTo s)) = Some (HTMLImageElement e nw nh)"
    by auto
  have "js_div (mediaAspect (Some (HTMLImageElement e nw nh)))
          (js_div (Num (real (canvas_width s))) (Num (real (canvas_height s)))) = Num r"
    using h by (simp add: mediaAspect_def)
  moreover have "r \<noteq> 0" using h by simp
  ultimately show "gl (updateAspect s) =
            gl s @ [if r < 1 then Uniform2f U_uvScale (Num 1) (Num r)
                    else Uniform2f U_uvScale (Num (1 / r)) (Num 1)]"
    by (simp only: updateAspect_gl i Let_def) simp
next
  assume h: "(image_src (textureFrom s) = Some (HTMLImageElement e 16 9)
        \<or> image_src (textureFrom s) = None
           \<and> image_src (textureTo s) = Some (HTMLImageElement e 16 9))
       \<and> canvas_width s = canvas_height s \<and> canvas_height s \<noteq> 0"
  then have i: "(if image_src (textureFrom s) \<noteq> None then image_src (textureFrom s)
                 else image_src (textureTo s)) = Some (HTMLImageElement e 16 9)"
    by auto
  have "js_div (mediaAspect (Some (HTMLImageElement e 16 9)))
          (js_div (Num (real (canvas_width s))) (Num (real (canvas_height s)))) = Num (16 / 9)"
    using h by (simp add: mediaAspect_def)
  then show "gl (updateAspect s) = gl s @ [Uniform2f U_uvScale (Num (9 / 16)) (Num 1)]"
    by (simp only: updateAspect_gl i Let_def) simp
qed

theorem updateAspect_uvScale_witness:
  "image_src (textureFrom example_controller) = Some (HTMLImageElement 7 16 9)
   \<and> canvas_width example_controller = canvas_height example_controller
   \<and> canvas_height example_controller \<noteq> 0
   \<and> gl (updateAspect example_controller) =
       gl example_controller @ [Uniform2f U_uvScale (Num (9 / 16)) (Num 1)]
   \<and> gl (updateAspect (example_controller\<lparr>canvas_width := 100, canvas_height := 225\<rparr>)) =
       gl example_controller @ [Uniform2f U_uvScale (Num (1 / 4)) (Num 1)]
   \<and> gl (updateAspect (example_controller\<lparr>canvas_width := 400, canvas_height := 100\<rparr>)) =
       gl example_controller @ [Uniform2f U_uvScale (Num 1) (Num (4 / 9))]
   \<and> gl (updateAspect (example_controller\<lparr>canvas_width := 100, canvas_height := 0\<rparr>)) =
       gl example_controller @ [Uniform2f U_uvScale (Num 1) (Num 0)]
   \<and> gl (updateAspect (example_controller\<lparr>canvas_width := 0, canvas_height := 0\<rparr>)) =
       gl example_controller @ [Uniform2f U_uvScale NaN (Num 1)]"
  using updateAspect_uvScale [of example_controller 7 16 9 "16 / 9"]
    updateAspect_uvScale [of "example_controller\<lparr>canvas_width := 100, canvas_height := 0\<rparr>"]
    updateAspect_uvScale [of "example_controller\<lparr>canvas_width := 0, canvas_height := 0\<rparr>"]
    updateAspect_uvScale
      [of "example_controller\<lparr>canvas_width := 100, canvas_height := 225\<rparr>" 7 16 9 4]
    updateAspect_uvScale
      [of "example_controller\<lparr>canvas_width := 400, canvas_height := 100\<rparr>" 7 16 9 "4 / 9"]
  by (simp add: signed_infinity_def Let_def)

section \<open>After destroy\<close>

text \<open>
  Claim C9, as the code has it. In a destroyed controller \<^verbatim>\<open>render()\<close> and every tick of
  \<^verbatim>\<open>enter()\<close> or \<^verbatim>\<open>leave()\<close> change nothing; \<^verbatim>\<open>enter()\<close> and \<^verbatim>\<open>leave()\<close> issue no call on
  the context, dispatch nothing, queue nothing and keep the progress; \<^verbatim>\<open>stop()\<close> and
  \<^verbatim>\<open>reset()\<close> issue no call on the context and queue nothing, and \<^verbatim>\<open>stop()\<close> changes
  nothing while no mode flag is set, as right after \<^verbatim>\<open>destroy()\<close>.
\<close>

theorem after_destroy:
  assumes "destroyed s"
  shows "render s = s
     \<and> enter_tick st se now s = s
     \<and> leave_tick st se now s = s
     \<and> gl (enter now0 now1 s) = gl s \<and> dispatched (enter now0 now1 s) = dispatched s
     \<and> animationFrames (enter now0 now1 s) = animationFrames s
     \<and> progress (enter now0 now1 s) = progress s \<and> destroyed (enter now0 now1 s)
     \<and> gl (leave now0 now1 s) = gl s \<and> dispatched (leave now0 now1 s) = dispatched s
     \<and> animationFrames (leave now0 now1 s) = animationFrames s
     \<and> progress (leave now0 now1 s) = progress s \<and> destroyed (leave now0 now1 s)
     \<and> gl (stop s) = gl s \<and> animationFrames (stop s) = animationFrames s
     \<and> progress (stop s) = progress s \<and> destroyed (stop s)
     \<and> (\<not> isEntering s \<and> \<not> isLeaving s \<longrightarrow> stop s = s)
     \<and> gl (reset s) = gl s \<and> animationFrames (reset s) = animationFrames s
     \<and> destroyed (reset s)"
proof -
  have r: "reset s = (stop s)\<lparr>progress := Num 0\<rparr>"
    using assms by (simp add: reset_def render_destroyed)
  have i: "\<not> isEntering s \<and> \<not> isLeaving s \<longrightarrow> stop s = s"
    by (simp add: stop_def)
  have e: "gl (enter now0 now1 s) = gl s \<and> dispatched (enter now0 now1 s) = dispatched s
     \<and> animationFrames (enter now0 now1 s) = animationFrames s
     \<and> progress (enter now0 now1 s) = progress s \<and> destroyed (enter now0 now1 s)"
    using assms by (simp add: enter_destroyed)
  have l: "gl (leave now0 now1 s) = gl s \<and> dispatched (leave now0 now1 s) = dispatched s
     \<and> animationFrames (leave now0 now1 s) = animationFrames s
     \<and> progress (leave now0 now1 s) = progress s \<and> destroyed (leave now0 now1 s)"
    using assms by (simp add: leave_destroyed)
  from assms e l i show ?thesis
    by (simp add: r render_destroyed enter_tick_inert leave_tick_inert)
qed

theorem after_destroy_witness:
  "destroyed destroyed_example
   \<and> render destroyed_example = destroyed_example
   \<and> enter_tick 0 (Num 0) 1000 destroyed_example = destroyed_example
   \<and> \<not> isEntering destroyed_example \<and> \<not> isLeaving destroyed_example
   \<and> stop destroyed_example = destroyed_example
   \<and> gl (reset destroyed_example) = gl destroyed_example"
  using after_destroy [of destroyed_example 0 "Num 0" 1000]
  by simp

text \<open>
  The claim as stated fails: after \<^verbatim>\<open>destroy()\<close>, \<^verbatim>\<open>enter()\<close> sets the Entering flag, a
  \<^verbatim>\<open>stop()\<close> after that dispatches \<^verbatim>\<open>transitionEnd\<close>, and \<^verbatim>\<open>setSize\<close> with a new size
  calls \<^verbatim>\<open>viewport\<close> and \<^verbatim>\<open>uniform2f\<close>.
\<close>

theorem after_destroy_counterexample:
  "destroyed destroyed_example
   \<and> isEntering destroyed_example = False
   \<and> isEntering (enter 0 0 destroyed_example) = True
   \<and> dispatched destroyed_example = []
   \<and> dispatched (run [Enter 0 0, Stop] destroyed_example) = [TransitionEnd]
   \<and> gl (setSize 1 1 destroyed_example) =
       gl destroyed_example @ [Viewport 1 1, Uniform2f U_uvScale (Num (9 / 16)) (Num 1)]"
proof -
  have e: "enter 0 0 destroyed_example =
      destroyed_example\<lparr>isEntering := True, isLeaving := False\<rparr>"
    by (simp add: enter_destroyed)
  have s: "gl (setSize 1 1 destroyed_example) =
       gl destroyed_example @ [Viewport 1 1, Uniform2f U_uvScale (Num (9 / 16)) (Num 1)]"
    by (simp add: setSize_def updateAspect_gl destroyed_example_def mediaAspect_def)
  from s show ?thesis
    by (simp add: e stop_def dispatchEvent_def)
qed

section \<open>The texture always holds pixels\<close>

text \<open>
  Claim C10, as the code has it. After its construction and after every sequence of
  \<^verbatim>\<open>setImage\<close>, \<^verbatim>\<open>onLoad\<close> and load events, the texture object of a \<^verbatim>\<open>Texture\<close> holds pixel
  data: the 1 by 1 opaque black pixel, the 2 by 2 default canvas, or a loaded source. The
  constructor leaves the default canvas when there is no source, the source when it is
  loaded, and the opaque black pixel when the source is not loaded yet; \<^verbatim>\<open>setImage\<close> uploads
  the source when it is loaded and the default canvas otherwise.
\<close>

theorem texture_always_holds_pixels:
  "holds_pixels (fst (texture_run xs (Texture_new tid img gl0)))
   \<and> texels (fst (Texture_new tid img gl0)) =
       Some (case img of
               None \<Rightarrow> Uploaded defaultImage
             | Some i \<Rightarrow> if source_loaded i then Uploaded i else Rgba8 1 1 [0, 0, 0, 255])
   \<and> texels (fst (setImage img st)) =
       Some (Uploaded (case img of
                         None \<Rightarrow> defaultImage
                       | Some i \<Rightarrow> if source_loaded i then i else defaultImage))"
  by (cases img)
    (simp_all add: texture_run_holds Texture_new_holds Texture_new_texels setImage_texels
      opaque_black_def)

text \<open>
  The claim as stated says that a texture whose source is not yet loaded gets the 2 by 2
  placeholder. A \<^verbatim>\<open>Texture\<close> constructed with an image that is not loaded keeps the 1 by 1
  pixel of the constructor, and no other upload is made.
\<close>

theorem texture_placeholder_counterexample:
  "source_loaded (HTMLImageElement 7 0 0) = False
   \<and> Texture_new 0 (Some (HTMLImageElement 7 0 0)) [] =
       (\<lparr>image_src = Some (HTMLImageElement 7 0 0), texture_id = 0,
         texels = Some (Rgba8 1 1 [0, 0, 0, 255]), loadListeners = [7], updatedEvents = 0\<rparr>,
        [CreateTexture 0, BindTexture (Some 0), TexImage2D (Rgba8 1 1 [0, 0, 0, 255])])"
  by (simp add: Texture_new_def Let_def onLoad_waiting opaque_black_def)

end
